theory Spec2Isabelle
  imports Complex_Main
begin

section \<open>Strings\<close>

text \<open>
  A Python \<open>str\<close> is a sequence of Unicode code points.  The names, addresses and
  keyword tables of the planner are Chinese text, so a string is modelled as the list
  of its code points.  Python floats are modelled as reals.
\<close>

type_synonym pystr = "nat list"

text \<open>\<open>s.startswith(k)\<close>\<close>

fun startswith :: "pystr \<Rightarrow> pystr \<Rightarrow> bool" where
  "startswith s [] = True"
| "startswith [] (k # ks) = False"
| "startswith (c # s) (k # ks) = (c = k \<and> startswith s ks)"

text \<open>The substring test \<open>k in s\<close>.\<close>

fun py_in :: "pystr \<Rightarrow> pystr \<Rightarrow> bool" where
  "py_in k [] = (k = [])"
| "py_in k (c # s) = (startswith (c # s) k \<or> py_in k s)"

text \<open>\<open>any(k in s for k in ks)\<close>\<close>

fun any_in :: "pystr list \<Rightarrow> pystr \<Rightarrow> bool" where
  "any_in [] s = False"
| "any_in (k # ks) s = (py_in k s \<or> any_in ks s)"

section \<open>Data model (src/core/models.py)\<close>

datatype TransportMode = WALK | TAXI | BUS | SUBWAY | BICYCLE

datatype POIType =
  ATTRACTION | RESTAURANT | HOTEL | TRANSPORT_HUB | SHOPPING | ENTERTAINMENT | STATION

record Location =
  loc_id :: pystr
  name :: pystr
  lat :: real
  lon :: real
  ptype :: POIType
  address :: pystr
  average_visit_time :: real
  ticket_price :: real

record Edge =
  edge_id :: pystr
  from_loc :: Location
  to_loc :: Location
  mode :: TransportMode
  distance :: real
  time :: real
  cost :: real

section \<open>Region labels\<close>

text \<open>The label \<open>"qi ta"\<close> (other), returned when no keyword matches.\<close>

definition region_other :: pystr where
  "region_other = [20854, 20182]"

text \<open>
  The region keywords, in pinyin: Gulangyu, Xiada, Zengcuoan, Zhongshanlu, Huandaolu
  (Xiamen); Gusu, Huqiu, Jinjihu, Pingjianglu, Shantangjie (Suzhou); Xihu, Lingyin,
  Hefangjie, Qiantangjiang (Hangzhou); Waitan, Lujiazui, Nanjinglu, Yuyuan (Shanghai).
\<close>

definition kw_gulangyu :: pystr where "kw_gulangyu = [40723, 28010, 23679]"
definition kw_xiada :: pystr where "kw_xiada = [21414, 22823]"
definition kw_zengcuoan :: pystr where "kw_zengcuoan = [26366, 21405, 22453]"
definition kw_zhongshanlu :: pystr where "kw_zhongshanlu = [20013, 23665, 36335]"
definition kw_huandaolu :: pystr where "kw_huandaolu = [29615, 23707, 36335]"
definition kw_gusu :: pystr where "kw_gusu = [22993, 33487]"
definition kw_huqiu :: pystr where "kw_huqiu = [34382, 19992]"
definition kw_jinjihu :: pystr where "kw_jinjihu = [37329, 40481, 28246]"
definition kw_pingjianglu :: pystr where "kw_pingjianglu = [24179, 27743, 36335]"
definition kw_shantangjie :: pystr where "kw_shantangjie = [23665, 22616, 34903]"
definition kw_xihu :: pystr where "kw_xihu = [35199, 28246]"
definition kw_lingyin :: pystr where "kw_lingyin = [28789, 38544]"
definition kw_hefangjie :: pystr where "kw_hefangjie = [27827, 22346, 34903]"
definition kw_qiantangjiang :: pystr where "kw_qiantangjiang = [38065, 22616, 27743]"
definition kw_waitan :: pystr where "kw_waitan = [22806, 28393]"
definition kw_lujiazui :: pystr where "kw_lujiazui = [38470, 23478, 22068]"
definition kw_nanjinglu :: pystr where "kw_nanjinglu = [21335, 20140, 36335]"
definition kw_yuyuan :: pystr where "kw_yuyuan = [35947, 22253]"
definition kw_zhuozhengyuan :: pystr where "kw_zhuozhengyuan = [25305, 25919, 22253]"
definition kw_suzhou_museum :: pystr where
  "kw_suzhou_museum = [33487, 24030, 21338, 29289, 39302]"

text \<open>
  The loop shared by the three \<open>_get_region\<close> methods:
  \<open>for region in regions: if region in poi.name or region in poi.address: return region\<close>,
  then \<open>return "qi ta"\<close>.
\<close>

fun first_region :: "pystr list \<Rightarrow> Location \<Rightarrow> pystr" where
  "first_region [] poi = region_other"
| "first_region (k # ks) poi =
     (if py_in k (name poi) \<or> py_in k (address poi) then k else first_region ks poi)"

text \<open>\<open>ProgressivePlanner._get_region\<close> (progressive_planner.py): eighteen keywords.\<close>

definition planner_regions :: "pystr list" where
  "planner_regions =
     [kw_gulangyu, kw_xiada, kw_zengcuoan, kw_zhongshanlu, kw_huandaolu,
      kw_gusu, kw_huqiu, kw_jinjihu, kw_pingjianglu, kw_shantangjie,
      kw_xihu, kw_lingyin, kw_hefangjie, kw_qiantangjiang,
      kw_waitan, kw_lujiazui, kw_nanjinglu, kw_yuyuan]"

definition planner_get_region :: "Location \<Rightarrow> pystr" where
  "planner_get_region poi = first_region planner_regions poi"

text \<open>\<open>CausalFlowAnalyzer._get_region\<close> (semantic_causal_flow.py): five keywords.\<close>

definition analyzer_regions :: "pystr list" where
  "analyzer_regions = [kw_gulangyu, kw_xiada, kw_zengcuoan, kw_zhongshanlu, kw_huandaolu]"

definition analyzer_get_region :: "Location \<Rightarrow> pystr" where
  "analyzer_get_region poi = first_region analyzer_regions poi"



section \<open>Tensions (CausalFlowAnalyzer, semantic_causal_flow.py)\<close>

text \<open>
  A task is the dictionary \<open>{'current': .., 'next': .., 'context': ..}\<close>.  The context
  and its keys are read with \<open>.get(key, default)\<close>, so each may be missing.
\<close>

record Context =
  weather :: "pystr option"
  time_of_day :: "int option"
  visited_regions :: "(pystr \<rightharpoonup> int) option"

record Task =
  current :: Location
  next_poi :: Location
  task_context :: "Context option"

record Tensions =
  novelty :: real
  continuity :: real
  energy :: real
  conflict :: real

text \<open>\<open>context.get('visited_regions', {}).get(region, 0)\<close>\<close>

definition region_count :: "Context option \<Rightarrow> pystr \<Rightarrow> int" where
  "region_count ctx region =
     (case ctx of None \<Rightarrow> 0
      | Some c \<Rightarrow> (case visited_regions c of None \<Rightarrow> 0
                   | Some m \<Rightarrow> (case m region of None \<Rightarrow> 0 | Some n \<Rightarrow> n)))"

text \<open>\<open>context.get('time_of_day', 10)\<close>\<close>

definition context_hour :: "Context option \<Rightarrow> int" where
  "context_hour ctx =
     (case ctx of None \<Rightarrow> 10
      | Some c \<Rightarrow> (case time_of_day c of None \<Rightarrow> 10 | Some h \<Rightarrow> h))"

definition novelty_tension :: "int \<Rightarrow> real" where
  "novelty_tension visit_count =
     (if visit_count = 0 then 0.8 else if visit_count = 1 then - 0.3 else - 0.6)"

text \<open>The list \<open>famous\<close> of \<open>_compute_tensions\<close>.\<close>

definition famous_tension :: "pystr list" where
  "famous_tension =
     [kw_xiada, kw_gulangyu, kw_huandaolu, kw_zengcuoan, kw_zhongshanlu,
      kw_zhuozhengyuan, kw_huqiu, kw_pingjianglu, kw_gusu]"

definition continuity_tension :: "Location \<Rightarrow> Location \<Rightarrow> real" where
  "continuity_tension cur nxt =
     (let continuity = (if ptype cur = ptype nxt then - 0.4 else 0.3)
      in if any_in famous_tension (name nxt) then continuity + 0.2 else continuity)"

definition energy_tension :: "Location \<Rightarrow> int \<Rightarrow> real" where
  "energy_tension nxt time_hour =
     (let energy = (if time_hour < 12 then 0.6
                    else if time_hour < 16 then 0.2
                    else if time_hour < 18 then - 0.2
                    else - 0.5)
      in if ptype nxt = RESTAURANT
            \<and> ((11 \<le> time_hour \<and> time_hour \<le> 13) \<or> (17 \<le> time_hour \<and> time_hour \<le> 19))
         then energy + 0.4 else energy)"

text \<open>
  \<open>positive_count = sum(1 for t in tension_values if t > 0)\<close>, likewise
  \<open>negative_count\<close>, and the conflict computed from them.
\<close>

definition positive_count :: "real list \<Rightarrow> nat" where
  "positive_count ts = length (filter (\<lambda>t. t > 0) ts)"

definition negative_count :: "real list \<Rightarrow> nat" where
  "negative_count ts = length (filter (\<lambda>t. t < 0) ts)"

definition conflict_of :: "real list \<Rightarrow> real" where
  "conflict_of tension_values =
     (if positive_count tension_values > 0 \<and> negative_count tension_values > 0
      then real (min (positive_count tension_values) (negative_count tension_values))
             / real (length tension_values)
      else 0)"

text \<open>\<open>CausalFlowAnalyzer._compute_tensions\<close>\<close>

definition compute_tensions :: "Task \<Rightarrow> Tensions" where
  "compute_tensions task =
     (let region = analyzer_get_region (next_poi task);
          visit_count = region_count (task_context task) region;
          n = novelty_tension visit_count;
          c = continuity_tension (current task) (next_poi task);
          e = energy_tension (next_poi task) (context_hour (task_context task))
      in \<lparr>novelty = n, continuity = c, energy = e, conflict = conflict_of [n, c, e]\<rparr>)"

text \<open>\<open>CausalFlowAnalyzer._rule_causal_score_simple\<close>\<close>

definition rule_causal_score_simple :: "Task \<Rightarrow> real" where
  "rule_causal_score_simple task =
     (let tensions = compute_tensions task;
          score = 0.5 + novelty tensions * 0.3 + continuity tensions * 0.2
                    + energy tensions * 0.1
      in max 0.1 (min 0.95 score))"

section \<open>Verification data and user profile (src/core/models.py)\<close>

record DataSource =
  source_name :: pystr
  source_rating :: real
  review_count :: int

text \<open>
  \<open>NodeVerification\<close> with the fields that scoring and the quality filter read.  The
  keyword tests of the quality filter look into the text \<open>str(key_positive_words)\<close>;
  the field \<open>key_positive_words_str\<close> holds that text.
\<close>

record NodeVerification =
  data_sources :: "DataSource list"
  consistency_score :: real
  weighted_rating :: real
  valid_reviews :: int
  fake_rate :: real
  positive_rate :: real
  key_positive_words_str :: pystr
  spatial_score :: real
  temporal_score :: real
  predicted_crowd_level :: real

text \<open>\<open>NodeVerification.overall_trust_score\<close>\<close>

definition overall_trust_score :: "NodeVerification \<Rightarrow> real" where
  "overall_trust_score v =
     0.25 * consistency_score v + 0.25 * (1 - fake_rate v)
       + 0.25 * spatial_score v + 0.25 * temporal_score v"

text \<open>
  The dictionaries of \<open>UserProfile\<close>, as association lists; their keys are looked up
  with ASCII literals only.
\<close>

record UserProfile =
  purpose :: "(string \<times> real) list"
  intensity :: "(string \<times> real) list"
  pace :: "(string \<times> real) list"
  food_preference :: "(string \<times> real) list"

text \<open>\<open>d.get(key, default)\<close>\<close>

definition dict_get :: "(string \<times> real) list \<Rightarrow> string \<Rightarrow> real \<Rightarrow> real" where
  "dict_get d key dflt = (case map_of d key of None \<Rightarrow> dflt | Some x \<Rightarrow> x)"

section \<open>Session state (src/core/models.py)\<close>

record State =
  current_location :: Location
  current_time :: real
  visited_history :: "pystr set"
  visit_quality :: "pystr \<rightharpoonup> real"
  remaining_budget :: real

record Action =
  target_node :: Location
  transport_mode :: TransportMode
  selected_edge :: "Edge option"
  estimated_time :: real
  estimated_cost :: real

text \<open>One entry of \<open>PlanningSession.path_history\<close> (the wall-clock timestamp is left out).\<close>

record PathHistory =
  action :: Action
  previous_state :: State
  new_state :: State

text \<open>
  The fields of \<open>PlanningSession\<close> that the planner reads or writes; identifiers,
  hard constraints and wall-clock timestamps are left out.
\<close>

record PlanningSession =
  destination_city :: pystr
  duration :: real
  budget :: real
  user_profile :: UserProfile
  current_state :: State
  path_history :: "PathHistory list"
  region_visit_counts :: "pystr \<rightharpoonup> int"

text \<open>\<open>PlanningSession.add_history\<close>\<close>

definition add_history :: "PlanningSession \<Rightarrow> Action \<Rightarrow> State \<Rightarrow> State \<Rightarrow> PlanningSession" where
  "add_history session a old_state new_st =
     session\<lparr>path_history := path_history session
        @ [\<lparr>action = a, previous_state = old_state, new_state = new_st\<rparr>]\<rparr>"

section \<open>Transport enumeration (ProgressivePlanner, progressive_planner.py)\<close>

text \<open>An ASCII literal as a Python string.\<close>

definition asc :: "string \<Rightarrow> pystr" where
  "asc s = map of_char s"

text \<open>\<open>math.radians\<close> and \<open>ProgressivePlanner._haversine_distance\<close>\<close>

definition radians :: "real \<Rightarrow> real" where
  "radians x = x * pi / 180"

definition haversine_distance :: "Location \<Rightarrow> Location \<Rightarrow> real" where
  "haversine_distance loc1 loc2 =
     (let R = 6371;
          lat1 = radians (lat loc1); lon1 = radians (lon loc1);
          lat2 = radians (lat loc2); lon2 = radians (lon loc2);
          dlat = lat2 - lat1;
          dlon = lon2 - lon1;
          a = (sin (dlat / 2))\<^sup>2 + cos lat1 * cos lat2 * (sin (dlon / 2))\<^sup>2;
          c = 2 * arcsin (sqrt a)
      in R * c)"

definition compute_walk_edge :: "Location \<Rightarrow> Location \<Rightarrow> Edge option" where
  "compute_walk_edge from_l to_l =
     (let d = haversine_distance from_l to_l;
          t = d / 4.0
      in Some \<lparr>edge_id = asc ''walk_'' @ loc_id from_l @ asc ''_'' @ loc_id to_l,
                from_loc = from_l, to_loc = to_l, mode = WALK,
                distance = d, time = t, cost = 0.0\<rparr>)"

definition compute_taxi_edge :: "Location \<Rightarrow> Location \<Rightarrow> Edge option" where
  "compute_taxi_edge from_l to_l =
     (let straight_distance = haversine_distance from_l to_l;
          d = straight_distance * 1.3;
          t = d / 30.0;
          c = 13.0 + 2.5 * d
      in Some \<lparr>edge_id = asc ''taxi_'' @ loc_id from_l @ asc ''_'' @ loc_id to_l,
                from_loc = from_l, to_loc = to_l, mode = TAXI,
                distance = d, time = t, cost = c\<rparr>)"

definition compute_bus_edge :: "Location \<Rightarrow> Location \<Rightarrow> Edge option" where
  "compute_bus_edge from_l to_l =
     (let straight_distance = haversine_distance from_l to_l
      in if straight_distance < 1.0 \<or> straight_distance > 20.0 then None
         else
           (let d = straight_distance * 1.4;
                t = d / 15.0 + 0.3;
                c = 2.0
            in Some \<lparr>edge_id = asc ''bus_'' @ loc_id from_l @ asc ''_'' @ loc_id to_l,
                      from_loc = from_l, to_loc = to_l, mode = BUS,
                      distance = d, time = t, cost = c\<rparr>))"

definition compute_subway_edge :: "Location \<Rightarrow> Location \<Rightarrow> Edge option" where
  "compute_subway_edge from_l to_l =
     (let straight_distance = haversine_distance from_l to_l
      in if straight_distance < 3.0 \<or> straight_distance > 30.0 then None
         else
           (let d = straight_distance * 1.2;
                t = d / 35.0 + 0.25;
                c = min (2.0 + (d / 10) * 1.0) 8.0
            in Some \<lparr>edge_id = asc ''subway_'' @ loc_id from_l @ asc ''_'' @ loc_id to_l,
                      from_loc = from_l, to_loc = to_l, mode = SUBWAY,
                      distance = d, time = t, cost = c\<rparr>))"

text \<open>
  \<open>ProgressivePlanner._compute_edges\<close>: the edges are appended in the order walk, taxi,
  bus, subway; an edge that is \<open>None\<close> is skipped, and the walk edge also when its
  distance is not below 2 km.
\<close>

definition compute_edges :: "State \<Rightarrow> Location \<Rightarrow> Edge list" where
  "compute_edges state target =
     (let cur = current_location state;
          walk = (case compute_walk_edge cur target of
                    Some e \<Rightarrow> if distance e < 2.0 then [e] else []
                  | None \<Rightarrow> []);
          taxi = (case compute_taxi_edge cur target of Some e \<Rightarrow> [e] | None \<Rightarrow> []);
          bus = (case compute_bus_edge cur target of Some e \<Rightarrow> [e] | None \<Rightarrow> []);
          subway = (case compute_subway_edge cur target of Some e \<Rightarrow> [e] | None \<Rightarrow> [])
      in walk @ taxi @ bus @ subway)"

section \<open>Candidate options\<close>

text \<open>The dictionary stored in \<open>CandidateOption.w_axis_details\<close>.\<close>

record WAxisDetails =
  details_c_causal :: real
  details_tensions :: Tensions
  details_region :: pystr
  details_visit_count :: int

text \<open>
  \<open>CandidateOption\<close> with the fields that ranking, selection and explanation use.
\<close>

record CandidateOption =
  node :: Location
  edges :: "Edge list"
  score :: real
  match_score :: real
  explanation :: "pystr option"
  c_causal :: "real option"
  region :: "pystr option"
  visit_count :: "int option"
  w_axis_details :: "WAxisDetails option"

section \<open>Selection (ProgressivePlanner, progressive_planner.py)\<close>

text \<open>\<open>ProgressivePlanner._state_transition\<close>\<close>

definition state_transition :: "State \<Rightarrow> Action \<Rightarrow> Edge \<Rightarrow> State" where
  "state_transition state a edge =
     (let nd = target_node a;
          new_time = current_time state + time edge + average_visit_time nd;
          new_history = visited_history state \<union> {loc_id nd};
          new_quality = (visit_quality state)(loc_id nd \<mapsto> 0.8);
          new_budget = remaining_budget state - cost edge - ticket_price nd
      in \<lparr>current_location = nd, current_time = new_time, visited_history = new_history,
          visit_quality = new_quality, remaining_budget = new_budget\<rparr>)"

text \<open>
  \<open>ProgressivePlanner.user_select\<close>: the session is mutated in place and the new state
  returned; the model returns both.  The method has no check and no \<open>raise\<close>.
\<close>

definition user_select ::
  "PlanningSession \<Rightarrow> CandidateOption \<Rightarrow> Edge \<Rightarrow> PlanningSession \<times> State" where
  "user_select session selected_option selected_e =
     (let old_state = current_state session;
          nd = node selected_option;
          a = \<lparr>target_node = nd, transport_mode = mode selected_e,
               selected_edge = Some selected_e,
               estimated_time = time selected_e + average_visit_time nd,
               estimated_cost = cost selected_e + ticket_price nd\<rparr>;
          new_st = state_transition old_state a selected_e;
          reg = planner_get_region nd;
          counts = (region_visit_counts session)
                     (reg \<mapsto> (case region_visit_counts session reg of
                                 None \<Rightarrow> 0 | Some n \<Rightarrow> n) + 1);
          session1 = session\<lparr>region_visit_counts := counts\<rparr>;
          session2 = session1\<lparr>current_state := new_st\<rparr>
      in (add_history session2 a old_state new_st, new_st))"

text \<open>
  \<open>min(option.edges, key=lambda e: e.time)\<close>: the first edge of least time;
  \<open>ValueError\<close> on an empty list.
\<close>

fun min_time_from :: "Edge \<Rightarrow> Edge list \<Rightarrow> Edge" where
  "min_time_from best [] = best"
| "min_time_from best (e # es) = min_time_from (if time e < time best then e else best) es"

datatype py_error = ValueError

definition min_by_time :: "Edge list \<Rightarrow> py_error + Edge" where
  "min_by_time es = (case es of [] \<Rightarrow> Inl ValueError | e # rest \<Rightarrow> Inr (min_time_from e rest))"

text \<open>\<open>ProgressivePlanner.select_option\<close>\<close>

definition select_option ::
  "PlanningSession \<Rightarrow> CandidateOption \<Rightarrow> py_error + PlanningSession \<times> State" where
  "select_option session opt =
     (case min_by_time (edges opt) of
        Inl err \<Rightarrow> Inl err
      | Inr best_edge \<Rightarrow> Inr (user_select session opt best_edge))"

text \<open>
  The route \<open>POST /session/{session_id}/select\<close> (src/api/routes.py).  Its request
  carries the session id and \<open>option_index\<close> only.  The session lookup of the session
  manager and the planner's \<open>get_next_options\<close> are the arguments \<open>found\<close> and
  \<open>next_options\<close>; an exception other than \<open>HTTPException\<close> becomes status 500.
  The result \<open>Inr\<close> is the point where the selection has been applied; building the
  response from it is left out.
\<close>

datatype http_error = HTTP_400 | HTTP_404 | HTTP_500

definition route_select_option ::
  "(PlanningSession \<Rightarrow> CandidateOption list) \<Rightarrow> PlanningSession option \<Rightarrow> int
     \<Rightarrow> http_error + PlanningSession \<times> CandidateOption \<times> State" where
  "route_select_option next_options found option_index =
     (case found of
        None \<Rightarrow> Inl HTTP_404
      | Some session \<Rightarrow>
          (let options = next_options session
           in if option_index < 0 \<or> option_index \<ge> int (length options) then Inl HTTP_400
              else
                (let selected_option = options ! nat option_index
                 in case select_option session selected_option of
                      Inl err \<Rightarrow> Inl HTTP_500
                    | Inr (session', new_st) \<Rightarrow> Inr (session', selected_option, new_st))))"

section \<open>Batch causal reasoning (CausalFlowAnalyzer, semantic_causal_flow.py)\<close>

text \<open>
  The reasoning back end of the analyzer.  \<open>LLMClient f\<close>: an LLM client is configured
  and \<open>f i\<close> is the entry of \<open>llm_client.batch_reason(prompts, ...)\<close> for the \<open>i\<close>-th
  prompt, \<open>None\<close> being the absent sentinel.  \<open>SpatialIntelligence g\<close>: only the older
  reasoner is configured, \<open>g task\<close> is what \<open>reason_causality\<close> returns and \<open>None\<close>
  stands for a missing method or an exception.  \<open>RuleOnly\<close>: neither is configured.
\<close>

datatype Reasoner =
  LLMClient "nat \<Rightarrow> real option"
| SpatialIntelligence "Task \<Rightarrow> real option"
| RuleOnly

text \<open>One element of the list returned by \<open>batch_compute_causal_flow\<close>.\<close>

record WResult =
  result_c_causal :: real
  result_tensions :: Tensions

text \<open>\<open>CausalFlowAnalyzer._batch_llm_reason\<close>\<close>

definition batch_llm_reason :: "(nat \<Rightarrow> real option) \<Rightarrow> Task list \<Rightarrow> real list" where
  "batch_llm_reason llm tasks =
     map (\<lambda>(i, task). case llm i of Some s \<Rightarrow> s | None \<Rightarrow> rule_causal_score_simple task)
         (enumerate 0 tasks)"

text \<open>
  \<open>CausalFlowAnalyzer._batch_llm_reason_with_tensions\<close>: every result starts with the
  temporary value 0.5 and is then overwritten by the value of the same index.  The
  values of \<open>_batch_llm_reason\<close> are floats, so the \<open>else\<close> branch of the merge loop
  is never taken.
\<close>

definition batch_llm_reason_with_tensions ::
  "(nat \<Rightarrow> real option) \<Rightarrow> Task list \<Rightarrow> WResult list" where
  "batch_llm_reason_with_tensions llm tasks =
     (let results = map (\<lambda>task. \<lparr>result_c_causal = 0.5,
                                   result_tensions = compute_tensions task\<rparr>) tasks;
          c_causals = batch_llm_reason llm tasks
      in map (\<lambda>(r, c). r\<lparr>result_c_causal := c\<rparr>) (zip results c_causals))"

text \<open>\<open>CausalFlowAnalyzer._batch_spatial_reason_with_tensions\<close>\<close>

definition batch_spatial_reason_with_tensions ::
  "(Task \<Rightarrow> real option) \<Rightarrow> Task list \<Rightarrow> WResult list" where
  "batch_spatial_reason_with_tensions spatial tasks =
     map (\<lambda>task. \<lparr>result_c_causal = (case spatial task of Some s \<Rightarrow> s | None \<Rightarrow> 0.6),
                   result_tensions = compute_tensions task\<rparr>) tasks"

text \<open>\<open>CausalFlowAnalyzer._batch_rule_reason_with_tensions\<close>\<close>

definition batch_rule_reason_with_tensions :: "Task list \<Rightarrow> WResult list" where
  "batch_rule_reason_with_tensions tasks =
     map (\<lambda>task. \<lparr>result_c_causal = rule_causal_score_simple task,
                   result_tensions = compute_tensions task\<rparr>) tasks"

text \<open>\<open>CausalFlowAnalyzer.batch_compute_causal_flow\<close>\<close>

definition batch_compute_causal_flow :: "Reasoner \<Rightarrow> Task list \<Rightarrow> WResult list" where
  "batch_compute_causal_flow reasoner tasks =
     (if tasks = [] then []
      else case reasoner of
             LLMClient llm \<Rightarrow> batch_llm_reason_with_tensions llm tasks
           | SpatialIntelligence spatial \<Rightarrow> batch_spatial_reason_with_tensions spatial tasks
           | RuleOnly \<Rightarrow> batch_rule_reason_with_tensions tasks)"

section \<open>Ranking stage of get_next_options (progressive_planner.py)\<close>

text \<open>\<open>int(x)\<close> of a float: truncation towards zero.\<close>

definition py_int :: "real \<Rightarrow> int" where
  "py_int x = (if 0 \<le> x then \<lfloor>x\<rfloor> else \<lceil>x\<rceil>)"

text \<open>The slice \<open>xs[:k]\<close>; a negative \<open>k\<close> counts from the end.\<close>

definition py_prefix :: "int \<Rightarrow> 'a list \<Rightarrow> 'a list" where
  "py_prefix k xs = (if 0 \<le> k then take (nat k) xs else take (length xs - nat (- k)) xs)"

text \<open>The task that \<open>get_next_options\<close> builds for one option.\<close>

definition w_axis_task :: "PlanningSession \<Rightarrow> CandidateOption \<Rightarrow> Task" where
  "w_axis_task session opt =
     \<lparr>current = current_location (current_state session),
      next_poi = node opt,
      task_context = Some \<lparr>weather = Some (asc ''sunny''),
                           time_of_day = Some (py_int (current_time (current_state session))),
                           visited_regions = Some (region_visit_counts session)\<rparr>\<rparr>"

text \<open>\<open>session.region_visit_counts.get(region, 0)\<close>\<close>

definition session_region_count :: "PlanningSession \<Rightarrow> pystr \<Rightarrow> int" where
  "session_region_count session reg =
     (case region_visit_counts session reg of None \<Rightarrow> 0 | Some n \<Rightarrow> n)"

text \<open>The fields set from one W-axis result (the loop over \<open>zip(options, w_results)\<close>).\<close>

definition set_w_axis_fields ::
  "PlanningSession \<Rightarrow> CandidateOption \<Rightarrow> WResult \<Rightarrow> CandidateOption" where
  "set_w_axis_fields session opt w =
     (let reg = planner_get_region (node opt);
          vc = session_region_count session reg
      in opt\<lparr>c_causal := Some (result_c_causal w), region := Some reg, visit_count := Some vc,
             w_axis_details := Some \<lparr>details_c_causal = result_c_causal w,
                                      details_tensions = result_tensions w,
                                      details_region = reg, details_visit_count = vc\<rparr>\<rparr>)"

text \<open>The fields set when there is no W-axis (\<open>c = None\<close>) or when it raised (\<open>c = 0.5\<close>).\<close>

definition set_basic_fields ::
  "PlanningSession \<Rightarrow> real option \<Rightarrow> CandidateOption \<Rightarrow> CandidateOption" where
  "set_basic_fields session c opt =
     (let reg = planner_get_region (node opt)
      in opt\<lparr>c_causal := c, region := Some reg,
             visit_count := Some (session_region_count session reg)\<rparr>)"

text \<open>
  The planner's \<open>w_axis\<close>: not configured, configured with a reasoner, or configured
  but raising during the batch call (the \<open>except\<close> branch).
\<close>

datatype WAxis = NoWAxis | WAxisRaises | WAxisWith Reasoner

definition w_axis_stage ::
  "WAxis \<Rightarrow> PlanningSession \<Rightarrow> CandidateOption list \<Rightarrow> CandidateOption list" where
  "w_axis_stage w session options =
     (if options = [] then options
      else case w of
             NoWAxis \<Rightarrow> map (set_basic_fields session None) options
           | WAxisRaises \<Rightarrow> map (set_basic_fields session (Some 0.5)) options
           | WAxisWith reasoner \<Rightarrow>
               map (\<lambda>(opt, r). set_w_axis_fields session opt r)
                   (zip options
                      (batch_compute_causal_flow reasoner (map (w_axis_task session) options))))"

text \<open>
  \<open>options.sort(key=lambda x: x.score, reverse=True)\<close>: Python's sort is stable, also
  with \<open>reverse=True\<close>, so this is the stable sort by descending score.
\<close>

definition sort_by_score :: "CandidateOption list \<Rightarrow> CandidateOption list" where
  "sort_by_score options = sort_key (\<lambda>opt. - score opt) options"

text \<open>
  The explanation loop over \<open>enumerate(top_options, 1)\<close>.  The explainer is the
  argument \<open>explain rank option alternatives\<close>; \<open>None\<close> stands for an exception, which
  ends the loop and leaves the remaining explanations unset.
\<close>

fun explain_loop ::
  "(nat \<Rightarrow> CandidateOption \<Rightarrow> CandidateOption list option \<Rightarrow> pystr option)
     \<Rightarrow> CandidateOption list \<Rightarrow> nat \<Rightarrow> CandidateOption list \<Rightarrow> CandidateOption list" where
  "explain_loop explain top_options rank [] = []"
| "explain_loop explain top_options rank (opt # rest) =
     (case explain rank opt
             (if rank = 1 \<and> length top_options > 1
              then Some (take 2 (drop 1 top_options)) else None) of
        None \<Rightarrow> opt # rest
      | Some expl \<Rightarrow> opt\<lparr>explanation := Some expl\<rparr> # explain_loop explain top_options (rank + 1) rest)"

text \<open>
  \<open>ProgressivePlanner.get_next_options\<close> from step 3 on.  The argument \<open>built\<close> is the
  list \<open>options\<close> that steps 1 and 2 have built, in the order of the candidates;
  \<open>k = None\<close> is the default \<open>max_candidates = 10\<close>.  The risk annotation between
  sorting and slicing writes \<open>risk_level\<close> only and is left out.
\<close>

definition get_next_options ::
  "WAxis \<Rightarrow> (nat \<Rightarrow> CandidateOption \<Rightarrow> CandidateOption list option \<Rightarrow> pystr option) option
     \<Rightarrow> PlanningSession \<Rightarrow> int option \<Rightarrow> CandidateOption list \<Rightarrow> CandidateOption list" where
  "get_next_options w explainer session k built =
     (let k' = (case k of None \<Rightarrow> 10 | Some n \<Rightarrow> n);
          options = sort_by_score (w_axis_stage w session built);
          top_options = py_prefix k' options
      in case explainer of
           None \<Rightarrow> top_options
         | Some explain \<Rightarrow> explain_loop explain top_options 1 top_options)"

text \<open>\<open>SemanticCausalFlow.upgrade_to_4d_potential\<close> (semantic_causal_flow.py)\<close>

definition upgrade_to_4d_potential :: "real \<Rightarrow> real \<Rightarrow> real" where
  "upgrade_to_4d_potential phi_3d f_wc = phi_3d + f_wc"

text \<open>
  The composed score as the specification words it, for comparison with the code:
  S_sem = 0.5 + 0.3 novelty + 0.2 continuity + 0.1 energy clamped to [-1, 1],
  F_wc = 0.1 S_sem + 0.1 C_causal, and the final score is the base score plus F_wc clamped
  to [0, 1].
\<close>

definition spec_s_sem :: "Tensions \<Rightarrow> real" where
  "spec_s_sem t = max (- 1) (min 1 (0.5 + 0.3 * novelty t + 0.2 * continuity t + 0.1 * energy t))"

definition spec_phi4 :: "real \<Rightarrow> Tensions \<Rightarrow> real \<Rightarrow> real" where
  "spec_phi4 phi3 t c = max 0 (min 1 (phi3 + (0.1 * spec_s_sem t + 0.1 * c)))"

section \<open>Scoring engine (src/core/scoring_engine.py)\<close>

text \<open>\<open>max(xs)\<close> of a non-empty list.\<close>

definition py_max :: "real list \<Rightarrow> real" where
  "py_max xs = foldl max (hd xs) (tl xs)"

text \<open>\<open>ScoringEngine._match_poi_type_to_purpose\<close>\<close>

definition match_poi_type_to_purpose :: "Location \<Rightarrow> (string \<times> real) list \<Rightarrow> real" where
  "match_poi_type_to_purpose nd purp =
     (let mapped_purposes =
            (case ptype nd of
               ATTRACTION \<Rightarrow> [''culture'', ''leisure'', ''adventure'', ''photography'']
             | RESTAURANT \<Rightarrow> [''leisure'', ''food'']
             | HOTEL \<Rightarrow> [''rest'']
             | SHOPPING \<Rightarrow> [''shopping'', ''leisure'']
             | ENTERTAINMENT \<Rightarrow> [''leisure'', ''adventure'']
             | _ \<Rightarrow> [''leisure'']);
          scores = map (\<lambda>p. dict_get purp p 0.0) mapped_purposes
      in if scores = [] then 0.5 else py_max scores)"

text \<open>\<open>ScoringEngine._match_intensity\<close>\<close>

definition match_intensity :: "Location \<Rightarrow> (string \<times> real) list \<Rightarrow> real" where
  "match_intensity nd intensity_pref =
     (let visit_time = average_visit_time nd;
          poi_intensity = (if visit_time < 1.0 then ''very_low''
                           else if visit_time < 2.0 then ''low''
                           else if visit_time < 3.0 then ''medium''
                           else if visit_time < 4.0 then ''high''
                           else ''very_high'')
      in dict_get intensity_pref poi_intensity 0.5)"

text \<open>\<open>ScoringEngine._match_pace\<close>\<close>

definition match_pace :: "Location \<Rightarrow> (string \<times> real) list \<Rightarrow> real" where
  "match_pace nd pace_pref =
     (let poi_pace = (if ptype nd = ATTRACTION \<or> ptype nd = RESTAURANT then ''slow''
                      else if ptype nd = ENTERTAINMENT then ''fast''
                      else ''medium'')
      in dict_get pace_pref poi_pace 0.5)"

text \<open>\<open>ScoringEngine._match_food\<close>\<close>

definition match_food :: "Location \<Rightarrow> (string \<times> real) list \<Rightarrow> real" where
  "match_food nd food_pref = 0.7"

text \<open>\<open>ScoringEngine.compute_match_score\<close>\<close>

definition compute_match_score :: "Location \<Rightarrow> UserProfile \<Rightarrow> real" where
  "compute_match_score nd profile =
     (let scores = [match_poi_type_to_purpose nd (purpose profile),
                    match_intensity nd (intensity profile),
                    match_pace nd (pace profile)]
                   @ (if ptype nd = RESTAURANT \<and> food_preference profile \<noteq> []
                      then [match_food nd (food_preference profile)] else [])
      in if scores = [] then 0.5 else sum_list scores / real (length scores))"

text \<open>\<open>ScoringEngine._compute_quality_score\<close>\<close>

definition compute_quality_score :: "NodeVerification \<Rightarrow> real" where
  "compute_quality_score v =
     (let rating_score = weighted_rating v / 5.0;
          positive_score = positive_rate v
      in 0.6 * rating_score + 0.4 * positive_score)"

text \<open>\<open>ScoringEngine._compute_efficiency_score\<close>\<close>

definition compute_efficiency_score :: "Edge list \<Rightarrow> State \<Rightarrow> real" where
  "compute_efficiency_score es state =
     (case es of
        [] \<Rightarrow> 0.5
      | e # rest \<Rightarrow> (let best_edge = min_time_from e rest in exp (- time best_edge / 2.0)))"

text \<open>\<open>ScoringEngine._compute_novelty_score\<close>\<close>

definition compute_novelty_score :: "Location \<Rightarrow> State \<Rightarrow> real" where
  "compute_novelty_score nd state = (if loc_id nd \<in> visited_history state then 0.0 else 1.0)"

text \<open>The dictionary \<open>config['score_weights']\<close> and \<open>ScoringEngine._default_config\<close>.\<close>

record ScoreWeights =
  w_match :: real
  w_trust :: real
  w_quality :: real
  w_efficiency :: real
  w_novelty :: real
  w_crowd :: real

definition default_config :: ScoreWeights where
  "default_config = \<lparr>w_match = 0.25, w_trust = 0.20, w_quality = 0.20,
     w_efficiency = 0.15, w_novelty = 0.10, w_crowd = 0.10\<rparr>"

text \<open>\<open>ScoringEngine.compute_score\<close>\<close>

definition compute_score ::
  "ScoreWeights \<Rightarrow> Location \<Rightarrow> Edge list \<Rightarrow> NodeVerification \<Rightarrow> UserProfile \<Rightarrow> State \<Rightarrow> real" where
  "compute_score weights nd es v profile state =
     (let match_sc = compute_match_score nd profile;
          trust_score = overall_trust_score v;
          quality_score = compute_quality_score v;
          efficiency_score = compute_efficiency_score es state;
          novelty_score = compute_novelty_score nd state;
          crowd_score = 1 - predicted_crowd_level v;
          sc = w_match weights * match_sc + w_trust weights * trust_score
               + w_quality weights * quality_score + w_efficiency weights * efficiency_score
               + w_novelty weights * novelty_score + w_crowd weights * crowd_score
      in max 0.0 (min 1.0 sc))"

section \<open>Quality filter (src/core/poi_quality_filter.py)\<close>

record POIQualityScore =
  playability :: real
  viewability :: real
  popularity :: real
  history :: real
  overall :: real

text \<open>\<open>sum(1 for kw in keywords if kw in text)\<close>\<close>

definition count_matched :: "pystr list \<Rightarrow> pystr \<Rightarrow> nat" where
  "count_matched keywords txt = length (filter (\<lambda>kw. py_in kw txt) keywords)"

text \<open>\<open>POIQualityFilter._evaluate_playability\<close>\<close>

definition playability_keywords :: "pystr list" where
  "playability_keywords =
     [[22909, 29609], [26377, 36259], [20540, 24471], [25512, 33616], [31934, 24425],
      [20016, 23500]]"

definition evaluate_playability :: "Location \<Rightarrow> NodeVerification \<Rightarrow> real" where
  "evaluate_playability poi v =
     (let visit_time = average_visit_time poi;
          s1 = (if visit_time \<ge> 3.0 then 0.5
                else if visit_time \<ge> 1.5 then 0.3
                else if visit_time \<ge> 0.5 then 0.15
                else 0.05);
          s2 = s1 + (case ptype poi of
                       ATTRACTION \<Rightarrow> 0.4 | RESTAURANT \<Rightarrow> 0.2 | HOTEL \<Rightarrow> 0.1
                     | SHOPPING \<Rightarrow> 0.3 | ENTERTAINMENT \<Rightarrow> 0.35 | TRANSPORT_HUB \<Rightarrow> 0.0
                     | STATION \<Rightarrow> 0.2);
          matched = count_matched playability_keywords (key_positive_words_str v);
          s3 = s2 + min (real matched * 0.05) 0.1
      in min s3 1.0)"

text \<open>\<open>POIQualityFilter._evaluate_viewability\<close>\<close>

definition view_keywords :: "pystr list" where
  "view_keywords =
     [[32654], [28418, 20142], [39118, 26223], [26223, 33394], [25293, 29031],
      [25171, 21345], [22766, 35266]]"

definition evaluate_viewability :: "Location \<Rightarrow> NodeVerification \<Rightarrow> real" where
  "evaluate_viewability poi v =
     (let s1 = (case ptype poi of
                  ATTRACTION \<Rightarrow> 0.6 | RESTAURANT \<Rightarrow> 0.3 | HOTEL \<Rightarrow> 0.2
                | SHOPPING \<Rightarrow> 0.25 | ENTERTAINMENT \<Rightarrow> 0.3 | TRANSPORT_HUB \<Rightarrow> 0.1
                | STATION \<Rightarrow> 0.2);
          matched = count_matched view_keywords (key_positive_words_str v);
          s2 = s1 + min (real matched * 0.08) 0.2;
          s3 = (if weighted_rating v \<ge> 4.8 then s2 + 0.2
                else if weighted_rating v \<ge> 4.5 then s2 + 0.15
                else if weighted_rating v \<ge> 4.0 then s2 + 0.1
                else s2)
      in min s3 1.0)"

text \<open>\<open>POIQualityFilter._evaluate_popularity\<close>\<close>

definition evaluate_popularity :: "Location \<Rightarrow> NodeVerification \<Rightarrow> real" where
  "evaluate_popularity poi v =
     (let rc = valid_reviews v;
          s1 = (if rc > 0 then min (log 10 (real_of_int rc) / 4.0) 0.4 else 0.0);
          rating = weighted_rating v;
          s2 = s1 + (if rating \<ge> 4.8 then 0.3
                     else if rating \<ge> 4.5 then 0.25
                     else if rating \<ge> 4.0 then 0.15
                     else 0.05);
          source_count = length (data_sources v);
          s3 = s2 + min (real source_count * 0.1) 0.3
      in min s3 1.0)"

text \<open>
  \<open>POIQualityFilter._evaluate_history\<close>.  The name and the address are lowered first;
  the model lowers the ASCII letters, and no keyword has a cased character.
\<close>

definition py_lower :: "pystr \<Rightarrow> pystr" where
  "py_lower s = map (\<lambda>c. if 65 \<le> c \<and> c \<le> 90 then c + 32 else c) s"

definition history_keywords :: "pystr list" where
  "history_keywords =
     [[22253], [23546], [24217], [22612], [21476], [25925, 23621], [21338, 29289, 39302],
      [32426, 24565, 39302], [36951, 22336], [25991, 21270], [21382, 21490],
      [20256, 32479], [32769, 34903], [21476, 38215]]"

definition history_address_keywords :: "pystr list" where
  "history_address_keywords = [[32769, 22478], [21476, 22478], [21382, 21490, 34903, 21306]]"

definition history_review_keywords :: "pystr list" where
  "history_review_keywords =
     [[21382, 21490], [25991, 21270], [21476, 32769], [20256, 32479], [24213, 34164]]"

definition evaluate_history :: "Location \<Rightarrow> NodeVerification \<Rightarrow> real" where
  "evaluate_history poi v =
     (let s1 = (if any_in history_keywords (py_lower (name poi)) then 0.4 else 0.0);
          s2 = (if any_in history_address_keywords (py_lower (address poi))
                then s1 + 0.2 else s1);
          matched = count_matched history_review_keywords (key_positive_words_str v);
          s3 = s2 + min (real matched * 0.1) 0.2;
          s4 = (if ticket_price poi > 0 then s3 + 0.2 else s3)
      in min s4 1.0)"

text \<open>\<open>POIQualityFilter.evaluate_quality\<close>, with the weights of its configuration.\<close>

definition evaluate_quality :: "Location \<Rightarrow> NodeVerification \<Rightarrow> POIQualityScore" where
  "evaluate_quality poi v =
     (let p = evaluate_playability poi v;
          vw = evaluate_viewability poi v;
          pop = evaluate_popularity poi v;
          h = evaluate_history poi v
      in \<lparr>playability = p, viewability = vw, popularity = pop, history = h,
          overall = 0.30 * p + 0.25 * vw + 0.25 * pop + 0.20 * h\<rparr>)"

section \<open>Building the options: step 2 of get_next_options (progressive_planner.py)\<close>

text \<open>\<open>POIQualityFilter.is_worth_recommending\<close>, with the thresholds of its configuration.\<close>

definition is_worth_recommending :: "Location \<Rightarrow> NodeVerification \<Rightarrow> bool" where
  "is_worth_recommending poi v =
     (if valid_reviews v < 50 then False
      else if weighted_rating v < 4.0 then False
      else
        (let quality = evaluate_quality poi v
         in if playability quality < 0.3 then False
            else if \<not> (overall quality \<ge> 0.5) then False
            else True))"

text \<open>
  What the planner is built from.  \<open>verify\<close> is \<open>verification_engine.verify\<close>, with
  \<open>None\<close> when it returns \<open>None\<close> or raises; \<open>score_weights\<close> are the weights of the
  scoring engine; \<open>enable_quality_filter\<close> is the configuration switch; \<open>analysed\<close>
  tells whether the future preview and the deep analysis of a candidate went through
  (no exception, and a result other than \<open>None\<close>).
\<close>

record Planner =
  verify :: "Location \<Rightarrow> State \<Rightarrow> NodeVerification option"
  score_weights :: ScoreWeights
  enable_quality_filter :: bool
  analysed :: "Location \<Rightarrow> NodeVerification \<Rightarrow> bool"

text \<open>
  One round of the loop over the candidates: \<open>None\<close> when the candidate is skipped
  (\<open>continue\<close>), otherwise the option that is appended.
\<close>

definition build_option :: "Planner \<Rightarrow> PlanningSession \<Rightarrow> Location \<Rightarrow> CandidateOption option" where
  "build_option planner session nd =
     (let state = current_state session;
          profile = user_profile session;
          es = compute_edges state nd
      in if es = [] then None
         else case verify planner nd state of
                None \<Rightarrow> None
              | Some verification \<Rightarrow>
                  (let sc = compute_score (score_weights planner) nd es verification profile state;
                       match_sc = compute_match_score nd profile
                   in if enable_quality_filter planner
                         \<and> \<not> is_worth_recommending nd verification then None
                      else if \<not> analysed planner nd verification then None
                      else Some \<lparr>node = nd, edges = es, score = sc, match_score = match_sc,
                                 explanation = None, c_causal = None, region = None,
                                 visit_count = None, w_axis_details = None\<rparr>))"

fun build_options :: "Planner \<Rightarrow> PlanningSession \<Rightarrow> Location list \<Rightarrow> CandidateOption list" where
  "build_options planner session [] = []"
| "build_options planner session (nd # candidates) =
     (case build_option planner session nd of
        None \<Rightarrow> build_options planner session candidates
      | Some opt \<Rightarrow> opt # build_options planner session candidates)"

section \<open>Explanation layer (src/core/explanation_layer.py)\<close>













section \<open>What steps 1 and 2 computed of an option\<close>

text \<open>
  The POI, the edges and the two scores of an option: the fields that the later stages
  of \<open>get_next_options\<close> read but never write.
\<close>

definition option_core :: "CandidateOption \<Rightarrow> Location \<times> Edge list \<times> real \<times> real" where
  "option_core opt = (node opt, edges opt, score opt, match_score opt)"

section \<open>Example data\<close>

text \<open>
  A railway station as starting point, and entries of the built-in Suzhou table of
  src/data_services/poi_database.py: the Humble Administrator's Garden (Zhuozhengyuan),
  the Suzhou Museum and Tiger Hill (Huqiu), all with an address in the Gusu district;
  a restaurant; and a square at the coordinates of the station that takes no time to
  visit.
\<close>

definition ex_station :: Location where
  "ex_station = \<lparr>loc_id = asc ''start_u1'', name = [33487, 24030, 31449],
     lat = 31.3012, lon = 120.5242, ptype = STATION, address = [33487, 24030, 31449],
     average_visit_time = 0.0, ticket_price = 0.0\<rparr>"

definition ex_garden :: Location where
  "ex_garden = \<lparr>loc_id = asc ''suzhou_001'', name = [25305, 25919, 22253],
     lat = 31.3229, lon = 120.6309, ptype = ATTRACTION,
     address = [33487, 24030, 24066, 22993, 33487, 21306, 19996, 21271, 34903, 49, 55, 56, 21495],
     average_visit_time = 2.0, ticket_price = 70.0\<rparr>"

definition ex_museum :: Location where
  "ex_museum = \<lparr>loc_id = asc ''suzhou_002'', name = [33487, 24030, 21338, 29289, 39302],
     lat = 31.3241, lon = 120.6294, ptype = ATTRACTION,
     address = [33487, 24030, 24066, 22993, 33487, 21306, 19996, 21271, 34903, 50, 48, 52, 21495],
     average_visit_time = 1.5, ticket_price = 0.0\<rparr>"

definition ex_tiger_hill :: Location where
  "ex_tiger_hill = \<lparr>loc_id = asc ''suzhou_004'', name = [34382, 19992],
     lat = 31.3282, lon = 120.5947, ptype = ATTRACTION,
     address = [33487, 24030, 24066, 22993, 33487, 21306, 34382, 19992, 23665, 38376, 20869, 56, 21495],
     average_visit_time = 2.5, ticket_price = 60.0\<rparr>"

definition ex_restaurant :: Location where
  "ex_restaurant = \<lparr>loc_id = asc ''poi_food'', name = [26494, 40548, 27004],
     lat = 31.3110, lon = 120.6220, ptype = RESTAURANT,
     address = [35266, 21069, 34903, 49, 21495],
     average_visit_time = 1.0, ticket_price = 0.0\<rparr>"

definition ex_square :: Location where
  "ex_square = \<lparr>loc_id = asc ''poi_square'', name = [31449, 21069, 24191, 22330],
     lat = 31.3012, lon = 120.5242, ptype = ATTRACTION, address = [],
     average_visit_time = 0.0, ticket_price = 0.0\<rparr>"

text \<open>
  Two points on the equator whose great-circle distance is 20 km and 30 km from the
  first one.
\<close>

definition ex_equator :: "real \<Rightarrow> Location" where
  "ex_equator km = \<lparr>loc_id = asc ''eq'', name = [], lat = 0, lon = km * 180 / (6371 * pi),
     ptype = ATTRACTION, address = [], average_visit_time = 2.0, ticket_price = 0.0\<rparr>"

text \<open>Verification data of a well-rated place, and a user profile.\<close>

definition ex_verification :: NodeVerification where
  "ex_verification = \<lparr>data_sources =
       [\<lparr>source_name = asc ''gaode'', source_rating = 4.7, review_count = 6000\<rparr>,
        \<lparr>source_name = asc ''ctrip'', source_rating = 4.8, review_count = 3000\<rparr>,
        \<lparr>source_name = asc ''mafengwo'', source_rating = 4.6, review_count = 1000\<rparr>],
     consistency_score = 0.9, weighted_rating = 4.7,
     valid_reviews = 10000, fake_rate = 0.1, positive_rate = 0.9,
     key_positive_words_str = asc ''[]'', spatial_score = 0.8, temporal_score = 0.8,
     predicted_crowd_level = 0.5\<rparr>"

definition ex_profile :: UserProfile where
  "ex_profile = \<lparr>purpose = [(''leisure'', 0.7), (''culture'', 0.5)],
     intensity = [(''low'', 0.7), (''medium'', 0.3)],
     pace = [(''slow'', 0.8), (''medium'', 0.2)],
     food_preference = []\<rparr>"

text \<open>A state at a location with nothing visited, and a session in that state.\<close>

definition ex_state :: "Location \<Rightarrow> State" where
  "ex_state l = \<lparr>current_location = l, current_time = 0.0, visited_history = {},
     visit_quality = Map.empty, remaining_budget = 5000\<rparr>"

definition ex_session :: "Location \<Rightarrow> PlanningSession" where
  "ex_session l = \<lparr>destination_city = [33487, 24030], duration = 72.0, budget = 5000,
     user_profile = ex_profile, current_state = ex_state l, path_history = [],
     region_visit_counts = Map.empty\<rparr>"

text \<open>The context the planner builds: sunny, the given hour, the given visit counts.\<close>

definition ex_context :: "int \<Rightarrow> (pystr \<rightharpoonup> int) \<Rightarrow> Context" where
  "ex_context h counts =
     \<lparr>weather = Some (asc ''sunny''), time_of_day = Some h, visited_regions = Some counts\<rparr>"

definition ex_task :: "Location \<Rightarrow> Location \<Rightarrow> int \<Rightarrow> (pystr \<rightharpoonup> int) \<Rightarrow> Task" where
  "ex_task cur nxt h counts =
     \<lparr>current = cur, next_poi = nxt, task_context = Some (ex_context h counts)\<rparr>"

text \<open>Edges and options with given values.\<close>

definition ex_edge :: "Location \<Rightarrow> Location \<Rightarrow> TransportMode \<Rightarrow> real \<Rightarrow> real \<Rightarrow> real \<Rightarrow> Edge" where
  "ex_edge a b m d t c =
     \<lparr>edge_id = [], from_loc = a, to_loc = b, mode = m, distance = d, time = t, cost = c\<rparr>"

definition ex_option :: "Location \<Rightarrow> Edge list \<Rightarrow> real \<Rightarrow> CandidateOption" where
  "ex_option l es sc = \<lparr>node = l, edges = es, score = sc, match_score = 0.5,
     explanation = None, c_causal = None, region = None, visit_count = None,
     w_axis_details = None\<rparr>"

text \<open>From the station to the garden: by taxi, by bus or by subway.\<close>

definition ex_garden_edges :: "Edge list" where
  "ex_garden_edges =
     [ex_edge ex_station ex_garden TAXI 13.5 0.45 46.75,
      ex_edge ex_station ex_garden BUS 14.5 1.25 2,
      ex_edge ex_station ex_garden SUBWAY 12.5 0.6 3.25]"

definition ex_museum_edges :: "Edge list" where
  "ex_museum_edges =
     [ex_edge ex_station ex_museum TAXI 13.5 0.45 46.75,
      ex_edge ex_station ex_museum BUS 14.5 1.25 2]"

text \<open>The option for the square, with the edges that transport enumeration gives.\<close>

definition ex_square_option :: CandidateOption where
  "ex_square_option = ex_option ex_square (compute_edges (ex_state ex_station) ex_square) 0.5"


text \<open>
  The session after the garden has been selected from the station by taxi, and the
  options used with it.
\<close>

definition ex_garden_option :: CandidateOption where
  "ex_garden_option = ex_option ex_garden ex_garden_edges 0.8"

definition ex_museum_option :: CandidateOption where
  "ex_museum_option = ex_option ex_museum ex_museum_edges 0.7"

definition ex_after_garden :: PlanningSession where
  "ex_after_garden =
     fst (user_select (ex_session ex_station) ex_garden_option
            (ex_edge ex_station ex_garden TAXI 13.5 0.45 46.75))"

section \<open>Verified properties\<close>

lemmas kw_defs =
  kw_gulangyu_def kw_xiada_def kw_zengcuoan_def kw_zhongshanlu_def kw_huandaolu_def
  kw_gusu_def kw_huqiu_def kw_jinjihu_def kw_pingjianglu_def kw_shantangjie_def
  kw_xihu_def kw_lingyin_def kw_hefangjie_def kw_qiantangjiang_def kw_waitan_def
  kw_lujiazui_def kw_nanjinglu_def kw_yuyuan_def kw_zhuozhengyuan_def
  kw_suzhou_museum_def region_other_def

subsection \<open>Tension conflict\<close>

lemma conflict_of_three:
  "conflict_of [a, b, c] = real (min (positive_count [a, b, c]) (negative_count [a, b, c])) / 3"
  by (simp add: conflict_of_def positive_count_def negative_count_def)

lemma conflict_of_three_range: "conflict_of [a, b, c] \<in> {0, 1 / 3}"
  by (simp add: conflict_of_def positive_count_def negative_count_def)

lemma conflict_of_three_pos:
  "(conflict_of [a, b, c] > 0) = ((a > 0 \<or> b > 0 \<or> c > 0) \<and> (a < 0 \<or> b < 0 \<or> c < 0))"
  by (auto simp add: conflict_of_def positive_count_def negative_count_def)

lemmas ex_defs = ex_station_def ex_garden_def ex_museum_def ex_tiger_hill_def
  ex_restaurant_def ex_square_def ex_context_def ex_task_def asc_def ex_state_def
  ex_session_def ex_edge_def ex_option_def ex_garden_edges_def ex_museum_edges_def

lemmas tension_defs = compute_tensions_def Let_def analyzer_get_region_def analyzer_regions_def
  region_count_def context_hour_def novelty_tension_def continuity_tension_def
  famous_tension_def energy_tension_def conflict_of_def positive_count_def negative_count_def

lemma conflict_three_all:
  "conflict_of [a, b, c] = real (min (positive_count [a, b, c]) (negative_count [a, b, c])) / 3
   \<and> conflict_of [a, b, c] \<in> {0, 1 / 3, 2 / 3}
   \<and> ((conflict_of [a, b, c] > 0)
        = ((\<exists>x\<in>set [a, b, c]. x > 0) \<and> (\<exists>y\<in>set [a, b, c]. y < 0)))"
proof (intro conjI)
  show "conflict_of [a, b, c] = real (min (positive_count [a, b, c]) (negative_count [a, b, c])) / 3"
    by (rule conflict_of_three)
  have "conflict_of [a, b, c] \<in> {0, 1 / 3}" by (rule conflict_of_three_range)
  then show "conflict_of [a, b, c] \<in> {0, 1 / 3, 2 / 3}" by blast
  show "(conflict_of [a, b, c] > 0)
        = ((\<exists>x\<in>set [a, b, c]. x > 0) \<and> (\<exists>y\<in>set [a, b, c]. y < 0))"
    by (simp add: conflict_of_three_pos)
qed

text \<open>
  C8: for every candidate, the conflict computed by \<open>_compute_tensions\<close> equals
  min(pos, neg) / 3, where pos and neg count the strictly positive and the strictly
  negative values among the three signed tensions (novelty, continuity, energy); so it
  lies in {0, 1/3, 2/3}, and it is positive exactly when the three tensions include both
  a strictly positive and a strictly negative one.
\<close>

theorem tension_conflict:
  "let t = compute_tensions task; vals = [novelty t, continuity t, energy t]
   in conflict t = real (min (positive_count vals) (negative_count vals)) / 3
      \<and> conflict t \<in> {0, 1 / 3, 2 / 3}
      \<and> ((conflict t > 0) = ((\<exists>x\<in>set vals. x > 0) \<and> (\<exists>y\<in>set vals. y < 0)))"
proof -
  let ?t = "compute_tensions task"
  have conf: "conflict ?t = conflict_of [novelty ?t, continuity ?t, energy ?t]"
    by (simp add: compute_tensions_def Let_def)
  show ?thesis unfolding Let_def conf by (rule conflict_three_all)
qed

text \<open>
  At ten o'clock, going from the garden to Tiger Hill (both attractions, region not
  visited yet): novelty is positive, continuity negative, and the conflict is 1/3.
\<close>

theorem tension_conflict_witness:
  "conflict (compute_tensions (ex_task ex_garden ex_tiger_hill 10 Map.empty)) = 1 / 3
   \<and> novelty (compute_tensions (ex_task ex_garden ex_tiger_hill 10 Map.empty)) > 0
   \<and> continuity (compute_tensions (ex_task ex_garden ex_tiger_hill 10 Map.empty)) < 0"
  using tension_conflict[of "ex_task ex_garden ex_tiger_hill 10 Map.empty"]
  by (simp add: tension_defs ex_defs kw_defs)

subsection \<open>Rule-only causal score\<close>

lemma clamp_rule_range:
  fixes x :: real
  shows "0.1 \<le> max 0.1 (min 0.95 x) \<and> max 0.1 (min 0.95 x) \<le> 0.95"
  unfolding max_def min_def by (auto split: if_splits)

lemma rule_score_range:
  "0.1 \<le> rule_causal_score_simple task \<and> rule_causal_score_simple task \<le> 0.95"
  unfolding rule_causal_score_simple_def Let_def by (rule clamp_rule_range)

lemma rule_score_formula:
  "rule_causal_score_simple task =
     max 0.1 (min 0.95 (0.5 + 0.3 * novelty (compute_tensions task)
                          + 0.2 * continuity (compute_tensions task)
                          + 0.1 * energy (compute_tensions task)))"
  by (simp add: rule_causal_score_simple_def Let_def mult.commute)

lemma length_batch_llm_reason: "length (batch_llm_reason llm tasks) = length tasks"
  by (simp add: batch_llm_reason_def)

lemma nth_batch_llm_reason:
  "i < length tasks \<Longrightarrow> batch_llm_reason llm tasks ! i =
     (case llm i of Some s \<Rightarrow> s | None \<Rightarrow> rule_causal_score_simple (tasks ! i))"
  by (simp add: batch_llm_reason_def nth_enumerate_eq)

lemma nth_batch_llm_with_tensions:
  "i < length tasks \<Longrightarrow> batch_llm_reason_with_tensions llm tasks ! i =
     \<lparr>result_c_causal = (case llm i of Some s \<Rightarrow> s
                          | None \<Rightarrow> rule_causal_score_simple (tasks ! i)),
      result_tensions = compute_tensions (tasks ! i)\<rparr>"
  by (simp add: batch_llm_reason_with_tensions_def Let_def nth_batch_llm_reason
      length_batch_llm_reason)

lemma length_batch_compute: "length (batch_compute_causal_flow reasoner tasks) = length tasks"
  by (cases reasoner)
     (simp_all add: batch_compute_causal_flow_def batch_llm_reason_with_tensions_def Let_def
        length_batch_llm_reason batch_spatial_reason_with_tensions_def
        batch_rule_reason_with_tensions_def)

lemma batch_rule_fallback:
  assumes "i < length tasks"
      and "reasoner = RuleOnly \<or> (\<exists>llm. reasoner = LLMClient llm \<and> llm i = None)"
  shows "batch_compute_causal_flow reasoner tasks ! i =
     \<lparr>result_c_causal = rule_causal_score_simple (tasks ! i),
      result_tensions = compute_tensions (tasks ! i)\<rparr>"
proof -
  from assms(1) have ne: "tasks \<noteq> []" by auto
  from assms(2) show ?thesis
  proof
    assume "reasoner = RuleOnly"
    with assms(1) ne show ?thesis
      by (simp add: batch_compute_causal_flow_def batch_rule_reason_with_tensions_def)
  next
    assume "\<exists>llm. reasoner = LLMClient llm \<and> llm i = None"
    then obtain llm where "reasoner = LLMClient llm" "llm i = None" by blast
    with assms(1) ne show ?thesis
      by (simp add: batch_compute_causal_flow_def nth_batch_llm_with_tensions)
  qed
qed

text \<open>
  C10: whenever the causal score of the \<open>i\<close>-th candidate comes from the rule-only
  fallback (no LLM client and no older reasoner configured, or the LLM answer for that
  candidate is the absent sentinel), it equals
  max(0.1, min(0.95, 0.5 + 0.3 novelty + 0.2 continuity + 0.1 energy)) for the tensions
  of that candidate; hence it lies in [0.1, 0.95] and is neither 0 nor 1.
\<close>

theorem rule_fallback_c_causal:
  assumes "i < length tasks"
      and "reasoner = RuleOnly \<or> (\<exists>llm. reasoner = LLMClient llm \<and> llm i = None)"
  shows "let r = batch_compute_causal_flow reasoner tasks ! i;
             t = compute_tensions (tasks ! i)
         in length (batch_compute_causal_flow reasoner tasks) = length tasks
            \<and> result_tensions r = t
            \<and> result_c_causal r =
                max 0.1 (min 0.95 (0.5 + 0.3 * novelty t + 0.2 * continuity t + 0.1 * energy t))
            \<and> 0.1 \<le> result_c_causal r \<and> result_c_causal r \<le> 0.95
            \<and> result_c_causal r \<noteq> 0 \<and> result_c_causal r \<noteq> 1"
proof -
  let ?r = "batch_compute_causal_flow reasoner tasks ! i"
  have r: "?r = \<lparr>result_c_causal = rule_causal_score_simple (tasks ! i),
                  result_tensions = compute_tensions (tasks ! i)\<rparr>"
    using assms by (rule batch_rule_fallback)
  have c: "result_c_causal ?r = rule_causal_score_simple (tasks ! i)"
    and t: "result_tensions ?r = compute_tensions (tasks ! i)"
    by (simp_all add: r)
  have rng: "0.1 \<le> result_c_causal ?r" "result_c_causal ?r \<le> 0.95"
    using rule_score_range[of "tasks ! i"] by (simp_all add: c)
  have ne: "result_c_causal ?r \<noteq> 0" "result_c_causal ?r \<noteq> 1"
    using rng by auto
  show ?thesis
    unfolding Let_def
    using length_batch_compute[of reasoner tasks] t rng ne
      rule_score_formula[of "tasks ! i"] c
    by (intro conjI) simp_all
qed

text \<open>
  One candidate (the garden, from the station, at ten o'clock), an LLM client that
  answers with the absent sentinel: the causal score is the rule value 0.9.
\<close>

theorem rule_fallback_c_causal_witness:
  "result_c_causal (batch_compute_causal_flow (LLMClient (\<lambda>i. None))
      [ex_task ex_station ex_garden 10 Map.empty] ! 0) = 0.9"
proof -
  have h1: "(0::nat) < length [ex_task ex_station ex_garden 10 Map.empty]" by simp
  have h2: "LLMClient (\<lambda>i. None) = RuleOnly
            \<or> (\<exists>llm. LLMClient (\<lambda>i. None) = LLMClient llm \<and> llm 0 = None)" by simp
  show ?thesis
    using rule_fallback_c_causal[OF h1 h2]
    by (simp add: tension_defs ex_defs kw_defs)
qed

subsection \<open>Transport enumeration\<close>

lemma haversine_same: "lat a = lat b \<Longrightarrow> lon a = lon b \<Longrightarrow> haversine_distance a b = 0"
  by (simp add: haversine_distance_def Let_def)

lemma haversine_equator:
  assumes "0 \<le> km" "km \<le> 6371"
  shows "haversine_distance (ex_equator 0) (ex_equator km) = km"
proof -
  let ?x = "km / 12742"
  have x0: "0 \<le> ?x" using assms by simp
  have x1: "?x \<le> 1 / 2" using assms by simp
  have "1 / 2 \<le> pi / 2" using pi_ge_two by simp
  then have x2: "?x \<le> pi / 2" using x1 by linarith
  have xpi: "?x \<le> pi" using x2 pi_ge_zero by linarith
  have s0: "0 \<le> sin ?x" using x0 xpi by (rule sin_ge_zero)
  have rad: "radians (km * 180 / (6371 * pi)) = km / 6371"
    by (simp add: radians_def)
  have a: "\<bar>sin ?x\<bar> = sin ?x" using s0 by simp
  have asn: "arcsin (sin ?x) = ?x" using x0 x2 by (intro arcsin_sin) linarith+
  show ?thesis
    by (simp add: haversine_distance_def Let_def ex_equator_def rad radians_def a asn)
qed

lemmas edge_defs = compute_edges_def compute_walk_edge_def compute_taxi_edge_def
  compute_bus_edge_def compute_subway_edge_def

subsection \<open>Selection\<close>

lemma min_time_from_mem: "min_time_from b es \<in> set (b # es)"
  by (induction es arbitrary: b) auto

lemma min_time_from_least:
  "time (min_time_from b es) \<le> time b \<and> (\<forall>e\<in>set es. time (min_time_from b es) \<le> time e)"
proof (induction es arbitrary: b)
  case Nil
  then show ?case by simp
next
  case (Cons x xs)
  define b' where "b' = (if time x < time b then x else b)"
  have step: "min_time_from b (x # xs) = min_time_from b' xs"
    by (simp add: b'_def)
  have ih1: "time (min_time_from b' xs) \<le> time b'"
    and ih2: "\<forall>e\<in>set xs. time (min_time_from b' xs) \<le> time e"
    using Cons.IH[of b'] by simp_all
  have b'b: "time b' \<le> time b" and b'x: "time b' \<le> time x"
    by (simp_all add: b'_def)
  show ?case
    unfolding step using ih1 ih2 b'b b'x by auto
qed

lemma min_by_time_Inr:
  "min_by_time es = Inr e \<Longrightarrow> e \<in> set es \<and> (\<forall>e'\<in>set es. time e \<le> time e')"
  using min_time_from_mem min_time_from_least
  by (cases es) (auto simp add: min_by_time_def)

lemma min_by_time_nonempty: "es \<noteq> [] \<Longrightarrow> \<exists>e. min_by_time es = Inr e"
  by (cases es) (auto simp add: min_by_time_def)

lemma route_Inr_D:
  assumes "route_select_option next_options (Some session) option_index = Inr (session', opt, st)"
  shows "0 \<le> option_index \<and> option_index < int (length (next_options session))
         \<and> opt = next_options session ! nat option_index
         \<and> (\<exists>e\<in>set (edges opt). (\<forall>e'\<in>set (edges opt). time e \<le> time e')
               \<and> user_select session opt e = (session', st))"
proof -
  let ?opts = "next_options session"
  from assms have rng: "\<not> (option_index < 0 \<or> option_index \<ge> int (length ?opts))"
    by (auto simp add: route_select_option_def Let_def split: if_splits)
  with assms have sel: "select_option session (?opts ! nat option_index) = Inr (session', st)"
    and o: "opt = ?opts ! nat option_index"
    by (auto simp add: route_select_option_def Let_def split: if_splits sum.splits)
  from sel obtain e where e: "min_by_time (edges opt) = Inr e"
    and us: "user_select session opt e = (session', st)"
    by (auto simp add: select_option_def o split: sum.splits)
  from min_by_time_Inr[OF e] us rng o show ?thesis by auto
qed

text \<open>
  C9: a selection made through the route \<open>POST /session/{id}/select\<close> takes an option
  index only.  When the route has applied a selection, the index is in range, the option
  is the one at that index, and the edge applied by \<open>user_select\<close> is an edge of that
  option whose time is least among the option's edges.  For every option with at least
  one edge \<open>select_option\<close> does apply \<open>user_select\<close> with such an edge.
\<close>

theorem select_route_min_edge:
  "(route_select_option next_options (Some session) option_index = Inr (session', opt, st)
      \<longrightarrow> 0 \<le> option_index \<and> option_index < int (length (next_options session))
          \<and> opt = next_options session ! nat option_index
          \<and> (\<exists>e\<in>set (edges opt). (\<forall>e'\<in>set (edges opt). time e \<le> time e')
                \<and> user_select session opt e = (session', st)))
   \<and> (edges chosen \<noteq> []
      \<longrightarrow> (\<exists>e\<in>set (edges chosen). (\<forall>e'\<in>set (edges chosen). time e \<le> time e')
                \<and> select_option session chosen = Inr (user_select session chosen e)))"
proof (rule conjI)
  show "route_select_option next_options (Some session) option_index = Inr (session', opt, st)
      \<longrightarrow> 0 \<le> option_index \<and> option_index < int (length (next_options session))
          \<and> opt = next_options session ! nat option_index
          \<and> (\<exists>e\<in>set (edges opt). (\<forall>e'\<in>set (edges opt). time e \<le> time e')
                \<and> user_select session opt e = (session', st))"
    using route_Inr_D[of next_options session option_index session' opt st] by blast
  show "edges chosen \<noteq> []
      \<longrightarrow> (\<exists>e\<in>set (edges chosen). (\<forall>e'\<in>set (edges chosen). time e \<le> time e')
                \<and> select_option session chosen = Inr (user_select session chosen e))"
  proof (rule impI)
    assume "edges chosen \<noteq> []"
    then obtain e where e: "min_by_time (edges chosen) = Inr e"
      using min_by_time_nonempty by blast
    then have "select_option session chosen = Inr (user_select session chosen e)"
      by (simp add: select_option_def)
    with min_by_time_Inr[OF e]
    show "\<exists>e\<in>set (edges chosen). (\<forall>e'\<in>set (edges chosen). time e \<le> time e')
                \<and> select_option session chosen = Inr (user_select session chosen e)"
      by blast
  qed
qed

lemmas select_defs = user_select_def state_transition_def add_history_def Let_def
  planner_get_region_def planner_regions_def

text \<open>
  One option (the garden, reachable by taxi in 0.45 h, by bus in 1.25 h, by subway in
  0.6 h), index 0: the taxi edge is applied, and the elapsed time becomes 0.45 + 2.
\<close>

theorem select_route_min_edge_witness:
  "route_select_option (\<lambda>s. [ex_option ex_garden ex_garden_edges 0.8]) (Some (ex_session ex_station)) 0
     = Inr (fst (user_select (ex_session ex_station) (ex_option ex_garden ex_garden_edges 0.8)
                   (ex_edge ex_station ex_garden TAXI 13.5 0.45 46.75)),
            ex_option ex_garden ex_garden_edges 0.8,
            snd (user_select (ex_session ex_station) (ex_option ex_garden ex_garden_edges 0.8)
                   (ex_edge ex_station ex_garden TAXI 13.5 0.45 46.75)))
   \<and> current_time (snd (user_select (ex_session ex_station) (ex_option ex_garden ex_garden_edges 0.8)
                   (ex_edge ex_station ex_garden TAXI 13.5 0.45 46.75))) = 2.45"
proof -
  let ?o = "ex_option ex_garden ex_garden_edges 0.8"
  let ?e = "ex_edge ex_station ex_garden TAXI 13.5 0.45 46.75"
  let ?s = "ex_session ex_station"
  have m: "min_by_time (edges ?o) = Inr ?e"
    by (simp add: min_by_time_def ex_option_def ex_garden_edges_def ex_edge_def)
  have r: "route_select_option (\<lambda>s. [?o]) (Some ?s) 0
             = Inr (fst (user_select ?s ?o ?e), ?o, snd (user_select ?s ?o ?e))"
    by (simp add: route_select_option_def Let_def select_option_def m[simplified] split: prod.splits)
  have t: "current_time (snd (user_select ?s ?o ?e)) = 2.45"
    by (simp add: select_defs ex_defs)
  show ?thesis
    using select_route_min_edge[of "\<lambda>s. [?o]" ?s 0 "fst (user_select ?s ?o ?e)" ?o
        "snd (user_select ?s ?o ?e)" ?o] r t
    by simp
qed


text \<open>
  C7 (as the code has it): after \<open>user_select\<close> with option \<open>opt\<close> and edge \<open>e\<close> the
  current location is the option's POI; the elapsed time has grown by exactly the time
  of \<open>e\<close> plus the average visit time of the POI, so it has strictly grown whenever that
  sum is positive; the remaining budget has dropped by exactly the cost of \<open>e\<close> plus the
  ticket price; the POI's id has been added to the visited ids; the visit count of the
  POI's region has grown by one and no other count has changed; and one entry has
  been appended to the path history of the session.
\<close>

theorem user_select_updates:
  "let old = current_state session;
       nd = node opt;
       session' = fst (user_select session opt e);
       st = snd (user_select session opt e);
       reg = planner_get_region nd
   in current_state session' = st
      \<and> current_location st = nd
      \<and> current_time st = current_time old + (time e + average_visit_time nd)
      \<and> (0 < time e + average_visit_time nd \<longrightarrow> current_time old < current_time st)
      \<and> remaining_budget st = remaining_budget old - (cost e + ticket_price nd)
      \<and> visited_history st = insert (loc_id nd) (visited_history old)
      \<and> region_visit_counts session' reg = Some (session_region_count session reg + 1)
      \<and> (\<forall>r. r \<noteq> reg \<longrightarrow> region_visit_counts session' r = region_visit_counts session r)
      \<and> path_history session' = path_history session
            @ [\<lparr>action = \<lparr>target_node = nd, transport_mode = mode e, selected_edge = Some e,
                            estimated_time = time e + average_visit_time nd,
                            estimated_cost = cost e + ticket_price nd\<rparr>,
                 previous_state = old, new_state = st\<rparr>]"
  by (simp add: user_select_def state_transition_def add_history_def Let_def
      session_region_count_def)

text \<open>
  Taking the bus (1.25 h, 2 yuan) from the station to the garden (2 h, ticket 70) with a
  budget of 5000.
\<close>

theorem user_select_updates_witness:
  "current_time (snd (user_select (ex_session ex_station)
       (ex_option ex_garden ex_garden_edges 0.8)
       (ex_edge ex_station ex_garden BUS 14.5 1.25 2))) = 3.25
   \<and> remaining_budget (snd (user_select (ex_session ex_station)
       (ex_option ex_garden ex_garden_edges 0.8)
       (ex_edge ex_station ex_garden BUS 14.5 1.25 2))) = 4928
   \<and> region_visit_counts (fst (user_select (ex_session ex_station)
       (ex_option ex_garden ex_garden_edges 0.8)
       (ex_edge ex_station ex_garden BUS 14.5 1.25 2))) kw_gusu = Some 1"
  using user_select_updates[of "ex_session ex_station" "ex_option ex_garden ex_garden_edges 0.8"
      "ex_edge ex_station ex_garden BUS 14.5 1.25 2"]
  by (simp add: Let_def session_region_count_def planner_get_region_def planner_regions_def
      ex_defs kw_defs)

lemma square_edges:
  "compute_edges (ex_state ex_station) ex_square =
     [\<lparr>edge_id = asc ''walk_'' @ loc_id ex_station @ asc ''_'' @ loc_id ex_square,
       from_loc = ex_station, to_loc = ex_square, mode = WALK,
       distance = 0, time = 0, cost = 0\<rparr>,
      \<lparr>edge_id = asc ''taxi_'' @ loc_id ex_station @ asc ''_'' @ loc_id ex_square,
       from_loc = ex_station, to_loc = ex_square, mode = TAXI,
       distance = 0, time = 0, cost = 13\<rparr>]"
proof -
  have h0: "haversine_distance ex_station ex_square = 0"
    by (rule haversine_same) (simp_all add: ex_station_def ex_square_def)
  show ?thesis
    by (simp add: edge_defs Let_def ex_state_def h0)
qed

text \<open>
  C7 as stated lets the elapsed time grow strictly at every valid selection.  A square
  at the coordinates of the current location that takes no time to visit is reached
  by a walk edge of time 0: the selection is valid and the elapsed time stays the same.
\<close>

theorem zero_duration_counterexample:
  "hd (edges ex_square_option) \<in> set (edges ex_square_option)
   \<and> loc_id (node ex_square_option) \<notin> visited_history (current_state (ex_session ex_station))
   \<and> select_option (ex_session ex_station) ex_square_option
        = Inr (user_select (ex_session ex_station) ex_square_option (hd (edges ex_square_option)))
   \<and> current_time (snd (user_select (ex_session ex_station) ex_square_option
          (hd (edges ex_square_option))))
        = current_time (current_state (ex_session ex_station))"
proof -
  have es: "edges ex_square_option = compute_edges (ex_state ex_station) ex_square"
    and nd: "node ex_square_option = ex_square"
    by (simp_all add: ex_square_option_def ex_option_def)
  have sel: "select_option (ex_session ex_station) ex_square_option
        = Inr (user_select (ex_session ex_station) ex_square_option (hd (edges ex_square_option)))"
    by (simp add: select_option_def min_by_time_def es square_edges)
  have t: "time (hd (edges ex_square_option)) = 0"
    by (simp add: es square_edges)
  have v: "average_visit_time (node ex_square_option) = 0"
    and i: "loc_id (node ex_square_option) \<notin> visited_history (current_state (ex_session ex_station))"
    by (simp_all add: nd ex_square_def ex_session_def ex_state_def)
  have m: "hd (edges ex_square_option) \<in> set (edges ex_square_option)"
    by (simp add: es square_edges)
  have c: "current_time (snd (user_select (ex_session ex_station) ex_square_option
          (hd (edges ex_square_option))))
        = current_time (current_state (ex_session ex_station))"
    by (simp add: user_select_def state_transition_def add_history_def Let_def t v)
  from m i sel c show ?thesis by (intro conjI)
qed

lemmas ex2_defs = ex_garden_option_def ex_museum_option_def ex_after_garden_def




subsection \<open>Novelty tension and region labels\<close>

lemma novelty_of_task:
  "novelty (compute_tensions task) =
     novelty_tension (region_count (task_context task) (analyzer_get_region (next_poi task)))"
  by (simp add: compute_tensions_def Let_def)

text \<open>
  C6: the novelty tension is 0.8, -0.3 or -0.6 for a visit count of 0, 1 or at least 2,
  but the count is looked up under the label of the analyzer's own table of five Xiamen
  keywords, while the planner counts selections under the label of its table of eighteen
  keywords.  After one selection in the Gusu district the planner's count for Gusu is 1;
  for the museum, also in Gusu, the analyzer's label is "other" and the novelty tension
  is still 0.8, where the claim gives -0.3.
\<close>

theorem region_table_mismatch:
  "planner_get_region ex_museum = kw_gusu
   \<and> region_visit_counts ex_after_garden (planner_get_region ex_museum) = Some 1
   \<and> analyzer_get_region ex_museum = region_other
   \<and> novelty (compute_tensions (w_axis_task ex_after_garden ex_museum_option)) = 0.8"
  by (simp add: ex2_defs select_defs ex_defs w_axis_task_def tension_defs kw_defs)

subsection \<open>Ranking\<close>

lemma core_set_w_axis_fields [simp]:
  "option_core (set_w_axis_fields session opt r) = option_core opt"
  by (simp add: option_core_def set_w_axis_fields_def Let_def)

lemma core_set_basic_fields [simp]:
  "option_core (set_basic_fields session c opt) = option_core opt"
  by (simp add: option_core_def set_basic_fields_def Let_def)

lemma map_core_zip:
  "length rs = length opts \<Longrightarrow>
   map option_core (map (\<lambda>(opt, r). set_w_axis_fields session opt r) (zip opts rs))
     = map option_core opts"
proof -
  assume len: "length rs = length opts"
  have "map option_core (map (\<lambda>(opt, r). set_w_axis_fields session opt r) (zip opts rs))
        = map (option_core \<circ> fst) (zip opts rs)"
    by (simp add: case_prod_unfold)
  also have "\<dots> = map option_core (map fst (zip opts rs))" by simp
  also have "\<dots> = map option_core opts" using len by simp
  finally show ?thesis .
qed

lemma w_axis_stage_core:
  "map option_core (w_axis_stage w session built) = map option_core built"
proof (cases w)
  case NoWAxis
  then show ?thesis by (simp add: w_axis_stage_def)
next
  case WAxisRaises
  then show ?thesis by (simp add: w_axis_stage_def)
next
  case (WAxisWith reasoner)
  have "length (batch_compute_causal_flow reasoner (map (w_axis_task session) built))
        = length built"
    by (simp add: length_batch_compute)
  then show ?thesis
    using WAxisWith by (simp add: w_axis_stage_def map_core_zip del: map_map)
qed

lemma core_explanation_update [simp]:
  "option_core (opt\<lparr>explanation := e\<rparr>) = option_core opt"
  by (simp add: option_core_def)

lemma explain_loop_core:
  "map option_core (explain_loop explain top_options rank opts) = map option_core opts"
proof (induction opts arbitrary: rank)
  case Nil
  then show ?case by simp
next
  case (Cons opt rest)
  show ?case
    by (cases "explain rank opt (if rank = 1 \<and> length top_options > 1
              then Some (take 2 (drop 1 top_options)) else None)")
       (simp_all add: Cons.IH)
qed

lemma py_prefix_map: "map f (py_prefix k xs) = py_prefix k (map f xs)"
  by (simp add: py_prefix_def take_map)

lemma score_of_core: "score opt = fst (snd (snd (option_core opt)))"
  by (simp add: option_core_def)

lemma sorted_desc_core:
  "sorted_wrt (\<lambda>a b. score a \<ge> score b) xs
     = sorted_wrt (\<lambda>a b. fst (snd (snd a)) \<ge> fst (snd (snd b))) (map option_core xs)"
  by (simp add: sorted_wrt_map score_of_core)

lemma sort_by_score_sorted: "sorted_wrt (\<lambda>a b. score a \<ge> score b) (sort_by_score xs)"
proof -
  have "sorted (map (\<lambda>opt. - score opt) (sort_key (\<lambda>opt. - score opt) xs))"
    by (rule sorted_sort_key)
  then show ?thesis
    by (simp add: sort_by_score_def sorted_wrt_map sorted_map)
qed

lemma py_prefix_sorted: "sorted_wrt P xs \<Longrightarrow> sorted_wrt P (py_prefix k xs)"
  by (simp add: py_prefix_def sorted_wrt_take)

lemma sort_by_score_stable:
  "filter (\<lambda>opt. score opt = x) (sort_by_score xs) = filter (\<lambda>opt. score opt = x) xs"
proof -
  have "filter (\<lambda>y. - score y = - x) (sort_key (\<lambda>opt. - score opt) xs)
        = filter (\<lambda>y. - score y = - x) xs"
    by (rule sort_key_stable)
  then show ?thesis by (simp add: sort_by_score_def)
qed

lemma filter_score_core:
  "map option_core (filter (\<lambda>opt. score opt = x) xs)
     = filter (\<lambda>c. fst (snd (snd c)) = x) (map option_core xs)"
  by (simp add: filter_map comp_def score_of_core)

lemma get_next_options_core:
  "map option_core (get_next_options w explainer session k built)
     = py_prefix (case k of None \<Rightarrow> 10 | Some n \<Rightarrow> n)
         (map option_core (sort_by_score (w_axis_stage w session built)))"
  by (cases explainer)
     (simp_all add: get_next_options_def Let_def explain_loop_core py_prefix_map)

text \<open>
  C1 (as the code has it): the options that \<open>get_next_options\<close> returns are the first k
  of the built options sorted by descending base score (the field \<open>score\<close>); the W-axis
  stage and the explanation stage leave POI, edges and scores as they were, so the causal
  score and the tensions are attached to an option without entering its rank.  The
  returned list and the full ranked list are in descending order of base score, and
  options of equal base score keep the order in which they were built (the sort is
  stable); the order is therefore a function of the built list alone.
\<close>

theorem next_options_ranking:
  "map option_core (get_next_options w explainer session k built)
     = py_prefix (case k of None \<Rightarrow> 10 | Some n \<Rightarrow> n)
         (map option_core (sort_by_score (w_axis_stage w session built)))
   \<and> sorted_wrt (\<lambda>a b. score a \<ge> score b) (get_next_options w explainer session k built)
   \<and> sorted_wrt (\<lambda>a b. score a \<ge> score b) (sort_by_score (w_axis_stage w session built))
   \<and> (\<forall>x. map option_core (filter (\<lambda>opt. score opt = x)
                                     (sort_by_score (w_axis_stage w session built)))
           = map option_core (filter (\<lambda>opt. score opt = x) built))"
proof (intro conjI allI)
  let ?ranked = "sort_by_score (w_axis_stage w session built)"
  show core: "map option_core (get_next_options w explainer session k built)
     = py_prefix (case k of None \<Rightarrow> 10 | Some n \<Rightarrow> n) (map option_core ?ranked)"
    by (rule get_next_options_core)
  show ranked: "sorted_wrt (\<lambda>a b. score a \<ge> score b) ?ranked"
    by (rule sort_by_score_sorted)
  have "sorted_wrt (\<lambda>a b. fst (snd (snd a)) \<ge> fst (snd (snd b)))
          (py_prefix (case k of None \<Rightarrow> 10 | Some n \<Rightarrow> n) (map option_core ?ranked))"
    using ranked by (intro py_prefix_sorted) (simp add: sorted_desc_core)
  then show "sorted_wrt (\<lambda>a b. score a \<ge> score b) (get_next_options w explainer session k built)"
    by (simp add: sorted_desc_core core)
  fix x
  show "map option_core (filter (\<lambda>opt. score opt = x) ?ranked)
           = map option_core (filter (\<lambda>opt. score opt = x) built)"
    by (simp add: sort_by_score_stable filter_score_core w_axis_stage_core)
qed


lemmas ranking_defs = get_next_options_def sort_by_score_def w_axis_stage_def py_prefix_def
  batch_compute_causal_flow_def batch_llm_reason_with_tensions_def batch_llm_reason_def
  batch_rule_reason_with_tensions_def rule_causal_score_simple_def
  set_w_axis_fields_def set_basic_fields_def session_region_count_def w_axis_task_def py_int_def
  planner_get_region_def planner_regions_def enumerate_eq_zip

text \<open>
  Three built options with base scores 0.7 (museum), 0.7 (garden) and 0.9 (Tiger Hill),
  k = 2: Tiger Hill comes first, then the museum, which was built before the garden.
\<close>

theorem next_options_ranking_witness:
  "map (\<lambda>opt. (name (node opt), score opt))
     (get_next_options NoWAxis None (ex_session ex_station) (Some 2)
        [ex_museum_option, ex_garden_option\<lparr>score := 0.7\<rparr>, ex_option ex_tiger_hill [] 0.9])
   = [(name ex_tiger_hill, 0.9), (name ex_museum, 0.7)]"
  using next_options_ranking[of NoWAxis None "ex_session ex_station" "Some 2"
      "[ex_museum_option, ex_garden_option\<lparr>score := 0.7\<rparr>, ex_option ex_tiger_hill [] 0.9]"]
  by (simp add: ranking_defs ex2_defs ex_option_def Let_def)

text \<open>
  C1 as stated fails.  The garden has base score 0.75 and the LLM rates it 0.1; the
  museum has base score 0.7 and the LLM rates it 0.9.  The composed score of the
  specification is 0.85 for the garden and 0.876 for the museum, yet the garden is
  returned first.  Also, \<open>upgrade_to_4d_potential\<close> does not clamp: 0.95 + 0.2 gives 1.15.
\<close>

theorem ranking_by_base_score_counterexample:
  "map (\<lambda>opt. (name (node opt), score opt, c_causal opt,
                 map_option details_tensions (w_axis_details opt)))
     (get_next_options (WAxisWith (LLMClient (\<lambda>i. if i = 0 then Some 0.1 else Some 0.9))) None
        (ex_session ex_station) None
        [ex_garden_option\<lparr>score := 0.75\<rparr>, ex_museum_option])
   = [(name ex_garden, 0.75, Some 0.1,
       Some \<lparr>novelty = 0.8, continuity = 0.5, energy = 0.6, conflict = 0\<rparr>),
      (name ex_museum, 0.7, Some 0.9,
       Some \<lparr>novelty = 0.8, continuity = 0.3, energy = 0.6, conflict = 0\<rparr>)]
   \<and> spec_phi4 0.75 \<lparr>novelty = 0.8, continuity = 0.5, energy = 0.6, conflict = 0\<rparr> 0.1 = 0.85
   \<and> spec_phi4 0.7 \<lparr>novelty = 0.8, continuity = 0.3, energy = 0.6, conflict = 0\<rparr> 0.9 = 0.876
   \<and> upgrade_to_4d_potential 0.95 (0.1 * 1 + 0.1 * 1) = 1.15"
  by (simp add: ranking_defs ex2_defs ex_defs Let_def tension_defs kw_defs
      spec_phi4_def spec_s_sem_def upgrade_to_4d_potential_def)

subsection \<open>Base score\<close>

lemma log10_10000: "log 10 (10000::real) = 4"
proof -
  have "log 10 ((10::real) ^ 4) = real 4" by (rule log_pow_cancel) simp_all
  moreover have "(10::real) ^ 4 = 10000" by simp
  ultimately show ?thesis by simp
qed

lemma min_time_from_Min:
  "time (min_time_from e rest) = Min (time ` set (e # rest))"
proof -
  have "Min (time ` set (e # rest)) = time (min_time_from e rest)"
  proof (rule Min_eqI)
    show "finite (time ` set (e # rest))" by simp
    show "\<And>y. y \<in> time ` set (e # rest) \<Longrightarrow> time (min_time_from e rest) \<le> y"
      using min_time_from_least[of e rest] by auto
    show "time (min_time_from e rest) \<in> time ` set (e # rest)"
      using min_time_from_mem[of e rest] by blast
  qed
  then show ?thesis by simp
qed

lemma efficiency_formula:
  "compute_efficiency_score es state =
     (if es = [] then 0.5 else exp (- Min (time ` set es) / 2))"
  by (cases es) (simp_all add: compute_efficiency_score_def Let_def min_time_from_Min del: set_simps)

lemma clamp01_range:
  fixes x :: real
  shows "0 \<le> max 0 (min 1 x) \<and> max 0 (min 1 x) \<le> 1"
  by (simp add: max_def min_def)

lemma compute_score_default:
  "compute_score default_config nd es v profile state =
     max 0 (min 1 (0.25 * compute_match_score nd profile
                   + 0.20 * overall_trust_score v
                   + 0.20 * (0.6 * (weighted_rating v / 5) + 0.4 * positive_rate v)
                   + 0.15 * (if es = [] then 0.5 else exp (- Min (time ` set es) / 2))
                   + 0.10 * (if loc_id nd \<in> visited_history state then 0 else 1)
                   + 0.10 * (1 - predicted_crowd_level v)))"
  unfolding compute_score_def Let_def efficiency_formula
  by (simp add: default_config_def compute_quality_score_def compute_novelty_score_def)

lemma compute_score_range:
  "0 \<le> compute_score weights nd es v profile state
   \<and> compute_score weights nd es v profile state \<le> 1"
  unfolding compute_score_def Let_def using clamp01_range by simp

lemmas score_defs = compute_match_score_def match_poi_type_to_purpose_def match_intensity_def
  match_pace_def match_food_def dict_get_def py_max_def overall_trust_score_def
  compute_quality_score_def compute_novelty_score_def default_config_def

lemmas quality_defs = evaluate_quality_def evaluate_playability_def evaluate_viewability_def
  evaluate_popularity_def evaluate_history_def count_matched_def playability_keywords_def
  view_keywords_def history_keywords_def history_address_keywords_def
  history_review_keywords_def py_lower_def

lemma ex_match: "compute_match_score ex_garden ex_profile = 0.6"
  by (simp add: score_defs ex_defs ex_profile_def)

lemma ex_quality: "overall (evaluate_quality ex_garden ex_verification) = 0.755"
  by (simp add: quality_defs ex_defs ex_verification_def log10_10000 Let_def)

lemma ex_quality_sc: "compute_quality_score ex_verification = 0.924"
  by (simp add: score_defs ex_verification_def)

lemma ex_min_time: "Min (time ` set ex_garden_edges) = 0.45"
  by (simp add: ex_garden_edges_def ex_edge_def)

lemma ex_verification_values:
  "overall_trust_score ex_verification = 0.85"
  "predicted_crowd_level ex_verification = 0.5"
  "weighted_rating ex_verification = 4.7"
  "positive_rate ex_verification = 0.9"
  by (simp_all add: overall_trust_score_def ex_verification_def)

lemma clamp_inactive:
  fixes a E :: real
  assumes "0 \<le> a" "a + 0.15 \<le> 1" "0 < E" "E \<le> 1"
  shows "max 0 (min 1 (a + 0.15 * E)) = a + 0.15 * E"
  using assms by (auto simp add: max_def min_def)

lemma ex_score:
  "compute_score default_config ex_garden ex_garden_edges ex_verification ex_profile
     (ex_state ex_station) = 0.6548 + 0.15 * exp (- (9 / 40))"
proof -
  have ne: "ex_garden_edges \<noteq> []" by (simp add: ex_garden_edges_def)
  have nv: "loc_id ex_garden \<notin> visited_history (ex_state ex_station)"
    by (simp add: ex_state_def)
  have "compute_score default_config ex_garden ex_garden_edges ex_verification ex_profile
     (ex_state ex_station) = max 0 (min 1 (0.6548 + 0.15 * exp (- (9 / 40))))"
    by (simp add: compute_score_default ne nv ex_verification_values ex_match ex_min_time)
  also have "\<dots> = 0.6548 + 0.15 * exp (- (9 / 40))"
    by (rule clamp_inactive) simp_all
  finally show ?thesis .
qed

lemma claimed_score:
  "max 0 (min 1 (0.25 * compute_match_score ex_garden ex_profile
                   + 0.20 * overall_trust_score ex_verification
                   + 0.20 * overall (evaluate_quality ex_garden ex_verification)
                   + 0.15 * exp (- Min (time ` set ex_garden_edges) / 2)
                   + 0.10 * 1
                   + 0.10 * (1 - predicted_crowd_level ex_verification)))
    = 0.621 + 0.15 * exp (- (9 / 40))"
proof -
  have "max 0 (min 1 (0.25 * compute_match_score ex_garden ex_profile
                   + 0.20 * overall_trust_score ex_verification
                   + 0.20 * overall (evaluate_quality ex_garden ex_verification)
                   + 0.15 * exp (- Min (time ` set ex_garden_edges) / 2)
                   + 0.10 * 1
                   + 0.10 * (1 - predicted_crowd_level ex_verification)))
        = max 0 (min 1 (0.621 + 0.15 * exp (- (9 / 40))))"
    by (simp add: ex_verification_values ex_match ex_min_time ex_quality)
  also have "\<dots> = 0.621 + 0.15 * exp (- (9 / 40))"
    by (rule clamp_inactive) simp_all
  finally show ?thesis .
qed

text \<open>
  C4 (as the code has it): with the default weights, which sum to 1, the base score is
  the weighted sum 0.25 match + 0.20 trust + 0.20 quality + 0.15 efficiency
  + 0.10 novelty + 0.10 crowd clamped to [0, 1], where quality is
  0.6 (weighted_rating / 5) + 0.4 positive_rate of the verification data, efficiency is
  exp(- least edge time / 2) (and 0.5 when there is no edge), novelty is 1 for an
  unvisited POI and 0 otherwise, and crowd is 1 minus the predicted crowd level.
\<close>

theorem base_score_formula:
  "compute_score default_config nd es v profile state =
     max 0 (min 1 (0.25 * compute_match_score nd profile
                   + 0.20 * overall_trust_score v
                   + 0.20 * (0.6 * (weighted_rating v / 5) + 0.4 * positive_rate v)
                   + 0.15 * (if es = [] then 0.5 else exp (- Min (time ` set es) / 2))
                   + 0.10 * (if loc_id nd \<in> visited_history state then 0 else 1)
                   + 0.10 * (1 - predicted_crowd_level v)))
   \<and> 0 \<le> compute_score default_config nd es v profile state
   \<and> compute_score default_config nd es v profile state \<le> 1
   \<and> w_match default_config + w_trust default_config + w_quality default_config
       + w_efficiency default_config + w_novelty default_config + w_crowd default_config = 1"
proof (intro conjI)
  show "compute_score default_config nd es v profile state =
     max 0 (min 1 (0.25 * compute_match_score nd profile
                   + 0.20 * overall_trust_score v
                   + 0.20 * (0.6 * (weighted_rating v / 5) + 0.4 * positive_rate v)
                   + 0.15 * (if es = [] then 0.5 else exp (- Min (time ` set es) / 2))
                   + 0.10 * (if loc_id nd \<in> visited_history state then 0 else 1)
                   + 0.10 * (1 - predicted_crowd_level v)))"
    by (rule compute_score_default)
  show "0 \<le> compute_score default_config nd es v profile state"
    using compute_score_range by blast
  show "compute_score default_config nd es v profile state \<le> 1"
    using compute_score_range by blast
  show "w_match default_config + w_trust default_config + w_quality default_config
       + w_efficiency default_config + w_novelty default_config + w_crowd default_config = 1"
    by (simp add: default_config_def)
qed

text \<open>
  The garden seen from the station (least edge time 0.45 h), with match 0.6, trust 0.85,
  rating 4.7, positive rate 0.9 and crowd level 0.5: the base score is
  0.6548 + 0.15 exp(-0.225).
\<close>

theorem base_score_formula_witness:
  "compute_score default_config ex_garden ex_garden_edges ex_verification ex_profile
     (ex_state ex_station) = 0.6548 + 0.15 * exp (- (9 / 40))"
proof -
  have ne: "ex_garden_edges \<noteq> []" by (simp add: ex_garden_edges_def)
  have nv: "loc_id ex_garden \<notin> visited_history (ex_state ex_station)"
    by (simp add: ex_state_def)
  have "compute_score default_config ex_garden ex_garden_edges ex_verification ex_profile
     (ex_state ex_station) = max 0 (min 1 (0.6548 + 0.15 * exp (- (9 / 40))))"
    using base_score_formula[of ex_garden ex_garden_edges ex_verification ex_profile
        "ex_state ex_station"]
    by (simp add: ne nv ex_verification_values ex_match ex_min_time)
  also have "\<dots> = 0.6548 + 0.15 * exp (- (9 / 40))"
    by (rule clamp_inactive) simp_all
  finally show ?thesis .
qed

text \<open>
  C4 as stated takes \<open>QualityScore.overall\<close> as the quality component.  For the garden
  the quality filter gives overall 0.755 while the scoring engine uses 0.924; the base
  score is 0.6548 + 0.15 exp(-0.225), and the formula of the claim gives
  0.621 + 0.15 exp(-0.225).
\<close>

theorem quality_component_counterexample:
  "compute_quality_score ex_verification = 0.924
   \<and> overall (evaluate_quality ex_garden ex_verification) = 0.755
   \<and> compute_score default_config ex_garden ex_garden_edges ex_verification ex_profile
        (ex_state ex_station)
      \<noteq> max 0 (min 1 (0.25 * compute_match_score ex_garden ex_profile
                   + 0.20 * overall_trust_score ex_verification
                   + 0.20 * overall (evaluate_quality ex_garden ex_verification)
                   + 0.15 * exp (- Min (time ` set ex_garden_edges) / 2)
                   + 0.10 * 1
                   + 0.10 * (1 - predicted_crowd_level ex_verification)))"
proof (intro conjI)
  show "compute_quality_score ex_verification = 0.924" by (rule ex_quality_sc)
  show "overall (evaluate_quality ex_garden ex_verification) = 0.755" by (rule ex_quality)
  show "compute_score default_config ex_garden ex_garden_edges ex_verification ex_profile
        (ex_state ex_station)
      \<noteq> max 0 (min 1 (0.25 * compute_match_score ex_garden ex_profile
                   + 0.20 * overall_trust_score ex_verification
                   + 0.20 * overall (evaluate_quality ex_garden ex_verification)
                   + 0.15 * exp (- Min (time ` set ex_garden_edges) / 2)
                   + 0.10 * 1
                   + 0.10 * (1 - predicted_crowd_level ex_verification)))"
    unfolding ex_score claimed_score by simp
qed

subsection \<open>Explanation fallbacks\<close>













subsection \<open>Options and their edges\<close>

lemma compute_edges_nonempty: "compute_edges state target \<noteq> []"
  by (simp add: edge_defs Let_def)

lemma build_option_Some:
  "build_option planner session nd = Some opt \<Longrightarrow>
     node opt = nd \<and> edges opt = compute_edges (current_state session) nd
     \<and> (\<exists>v. verify planner nd (current_state session) = Some v
            \<and> score opt = compute_score (score_weights planner) nd (edges opt) v
                  (user_profile session) (current_state session))"
  by (auto simp add: build_option_def Let_def split: if_splits option.splits)

lemma build_options_mem:
  "opt \<in> set (build_options planner session candidates) \<Longrightarrow>
     \<exists>nd\<in>set candidates. build_option planner session nd = Some opt"
  by (induction candidates) (auto split: option.splits)

lemma build_options_edges:
  assumes "opt \<in> set (build_options planner session candidates)"
  shows "edges opt = compute_edges (current_state session) (node opt) \<and> edges opt \<noteq> []"
proof -
  from build_options_mem[OF assms] obtain nd where
    "build_option planner session nd = Some opt" by blast
  from build_option_Some[OF this] show ?thesis
    by (simp add: compute_edges_nonempty)
qed

lemma set_py_prefix: "set (py_prefix k xs) \<subseteq> set xs"
  by (auto simp add: py_prefix_def dest: in_set_takeD)

lemma returned_core_subset:
  "set (map option_core (get_next_options w explainer session k built))
     \<subseteq> set (map option_core built)"
proof -
  have "set (map option_core (sort_by_score (w_axis_stage w session built)))
        = set (map option_core (w_axis_stage w session built))"
    by (simp add: sort_by_score_def)
  also have "\<dots> = set (map option_core built)"
    by (simp only: w_axis_stage_core)
  finally show ?thesis
    using set_py_prefix[of "case k of None \<Rightarrow> 10 | Some n \<Rightarrow> n"
        "map option_core (sort_by_score (w_axis_stage w session built))"]
    by (simp only: get_next_options_core)
qed

lemma returned_edges:
  assumes "opt \<in> set (get_next_options w explainer session k
                         (build_options planner session candidates))"
  shows "edges opt = compute_edges (current_state session) (node opt) \<and> edges opt \<noteq> []"
proof -
  from assms have "option_core opt \<in> set (map option_core (get_next_options w explainer session k
                         (build_options planner session candidates)))"
    by simp
  with returned_core_subset
  have "option_core opt \<in> set (map option_core (build_options planner session candidates))"
    by blast
  then obtain b where b: "b \<in> set (build_options planner session candidates)"
    and c: "option_core opt = option_core b" by auto
  from c have "node opt = node b" "edges opt = edges b" by (simp_all add: option_core_def)
  with build_options_edges[OF b] show ?thesis by (simp add: compute_edges_nonempty)
qed

text \<open>
  C5 (as the code has it): with h the haversine distance from the current location to
  the candidate, transport enumeration yields a walk edge iff h < 2 (distance h, time
  h/4, cost 0); always a taxi edge (distance 1.3 h, time distance/30, cost
  13 + 2.5 distance); a bus edge iff 1 \<le> h \<le> 20 (distance 1.4 h, time distance/15 + 0.3,
  cost 2); a subway edge iff 3 \<le> h \<le> 30 (distance 1.2 h, time distance/35 + 0.25, cost
  min(8, 2 + distance/10)).  The upper bounds 20 and 30 are inclusive.  The list of edges
  is never empty, so no candidate is dropped for lack of an edge, and every option that
  \<open>get_next_options\<close> returns carries the edges enumerated for its POI, at least one.
\<close>

theorem transport_enumeration:
  "let h = haversine_distance (current_location state) target;
       es = compute_edges state target
   in ((\<exists>e\<in>set es. mode e = WALK) = (h < 2))
      \<and> (\<forall>e\<in>set es. mode e = WALK \<longrightarrow> distance e = h \<and> time e = h / 4 \<and> cost e = 0)
      \<and> (\<exists>e\<in>set es. mode e = TAXI)
      \<and> (\<forall>e\<in>set es. mode e = TAXI \<longrightarrow>
            distance e = h * 1.3 \<and> time e = distance e / 30 \<and> cost e = 13 + 2.5 * distance e)
      \<and> ((\<exists>e\<in>set es. mode e = BUS) = (1 \<le> h \<and> h \<le> 20))
      \<and> (\<forall>e\<in>set es. mode e = BUS \<longrightarrow>
            distance e = h * 1.4 \<and> time e = distance e / 15 + 0.3 \<and> cost e = 2)
      \<and> ((\<exists>e\<in>set es. mode e = SUBWAY) = (3 \<le> h \<and> h \<le> 30))
      \<and> (\<forall>e\<in>set es. mode e = SUBWAY \<longrightarrow>
            distance e = h * 1.2 \<and> time e = distance e / 35 + 0.25
            \<and> cost e = min 8 (2 + distance e / 10))
      \<and> es \<noteq> []
      \<and> (\<forall>opt\<in>set (get_next_options w explainer session k
                          (build_options planner session candidates)).
            edges opt = compute_edges (current_state session) (node opt) \<and> edges opt \<noteq> [])"
proof -
  have enum: "let h = haversine_distance (current_location state) target;
       es = compute_edges state target
   in ((\<exists>e\<in>set es. mode e = WALK) = (h < 2))
      \<and> (\<forall>e\<in>set es. mode e = WALK \<longrightarrow> distance e = h \<and> time e = h / 4 \<and> cost e = 0)
      \<and> (\<exists>e\<in>set es. mode e = TAXI)
      \<and> (\<forall>e\<in>set es. mode e = TAXI \<longrightarrow>
            distance e = h * 1.3 \<and> time e = distance e / 30 \<and> cost e = 13 + 2.5 * distance e)
      \<and> ((\<exists>e\<in>set es. mode e = BUS) = (1 \<le> h \<and> h \<le> 20))
      \<and> (\<forall>e\<in>set es. mode e = BUS \<longrightarrow>
            distance e = h * 1.4 \<and> time e = distance e / 15 + 0.3 \<and> cost e = 2)
      \<and> ((\<exists>e\<in>set es. mode e = SUBWAY) = (3 \<le> h \<and> h \<le> 30))
      \<and> (\<forall>e\<in>set es. mode e = SUBWAY \<longrightarrow>
            distance e = h * 1.2 \<and> time e = distance e / 35 + 0.25
            \<and> cost e = min 8 (2 + distance e / 10))
      \<and> es \<noteq> []"
    unfolding Let_def edge_defs
    by (auto simp add: min_def)
  have ret: "\<forall>opt\<in>set (get_next_options w explainer session k
                          (build_options planner session candidates)).
            edges opt = compute_edges (current_state session) (node opt) \<and> edges opt \<noteq> []"
    using returned_edges by blast
  from enum ret show ?thesis
    unfolding Let_def by (elim conjE, intro conjI) assumption+
qed

text \<open>
  From the station to the square at the same coordinates the distance is 0: a walk
  edge and a taxi edge, no bus and no subway.
\<close>

theorem transport_enumeration_witness:
  "haversine_distance (current_location (ex_state ex_station)) ex_square = 0
   \<and> map mode (compute_edges (ex_state ex_station) ex_square) = [WALK, TAXI]
   \<and> map cost (compute_edges (ex_state ex_station) ex_square) = [0, 13]"
proof -
  have h0: "haversine_distance ex_station ex_square = 0"
    by (rule haversine_same) (simp_all add: ex_station_def ex_square_def)
  show ?thesis
    using transport_enumeration[of "ex_state ex_station" ex_square]
    by (simp add: edge_defs Let_def ex_state_def h0)
qed

text \<open>
  C5 as stated (bus iff 1 \<le> h < 20, subway iff 3 \<le> h < 30) fails at the upper bounds:
  at exactly 20 km the bus edge is kept, and at exactly 30 km the subway edge is kept.
\<close>

theorem transport_bounds_counterexample:
  "haversine_distance (current_location (ex_state (ex_equator 0))) (ex_equator 20) = 20
   \<and> \<not> ((20::real) < 20)
   \<and> map mode (compute_edges (ex_state (ex_equator 0)) (ex_equator 20)) = [TAXI, BUS, SUBWAY]
   \<and> haversine_distance (current_location (ex_state (ex_equator 0))) (ex_equator 30) = 30
   \<and> \<not> ((30::real) < 30)
   \<and> map mode (compute_edges (ex_state (ex_equator 0)) (ex_equator 30)) = [TAXI, SUBWAY]"
proof -
  have h20: "haversine_distance (ex_equator 0) (ex_equator 20) = 20"
    by (rule haversine_equator) simp_all
  have h30: "haversine_distance (ex_equator 0) (ex_equator 30) = 30"
    by (rule haversine_equator) simp_all
  show ?thesis
    by (simp add: edge_defs Let_def ex_state_def h20 h30)
qed

end
